theory Spec2Isabelle
  imports Complex_Main
begin

section \<open>The retraining script for DistilBERT on a GLUE task\<close>

text \<open>
  The development embeds \<^verbatim>\<open>examples/natural_language/transformers/retrain_distillbert.py\<close>.
  The script is control code over three libraries (the deep-learning framework, the
  dataset library and the model hub). Their objects are modelled symbolically, by the
  expression that built them; their calls are recorded, in order, in the world; and
  whether a call raises is a parameter of the model. What the script computes itself
  (the task-name helpers, the slicing loop, the step counts, the branches) is modelled
  as functions.
\<close>

subsection \<open>Command-line flags (lines 15-27)\<close>

text \<open>
  Python floats are only passed through by the script (to the optimizer); no arithmetic
  is done on them, so a real number stands for the float value.
\<close>

type_synonym pyfloat = real

record flags =
  batch_size :: int
  learning_rate :: pyfloat
  epsilon :: pyfloat
  max_length :: int
  buffer_size :: int
  use_xla :: bool
  use_amp :: bool
  epochs :: int
  task :: string
  force_train :: bool
  evaluate :: bool

datatype flag_value = Flag_integer int | Flag_float pyfloat | Flag_boolean bool | Flag_string string

text \<open>The \<^verbatim>\<open>flags.DEFINE_*\<close> calls, in source order: name and default value.\<close>

definition flag_definitions :: "(string \<times> flag_value) list" where
  "flag_definitions =
    [(''batch_size'', Flag_integer 32),
     (''learning_rate'', Flag_float (3 / 100000)),
     (''epsilon'', Flag_float (1 / 100000000)),
     (''max_length'', Flag_integer 128),
     (''buffer_size'', Flag_integer 128),
     (''use_xla'', Flag_boolean False),
     (''use_amp'', Flag_boolean False),
     (''epochs'', Flag_integer 3),
     (''task'', Flag_string ''sst-2''),
     (''force_train'', Flag_boolean False),
     (''evaluate'', Flag_boolean False)]"

text \<open>The value of \<^verbatim>\<open>FLAGS\<close> when no flag is given on the command line.\<close>

definition default_FLAGS :: flags where
  "default_FLAGS =
    \<lparr>batch_size = 32, learning_rate = 3 / 100000, epsilon = 1 / 100000000,
     max_length = 128, buffer_size = 128, use_xla = False, use_amp = False,
     epochs = 3, task = ''sst-2'', force_train = False, evaluate = False\<rparr>"

subsection \<open>Exceptions\<close>

text \<open>
  The script declares no exception class. The exceptions of a run are Python's own
  (raised by the script's dictionary lookups, indexing and arithmetic) and whatever a
  library call raises, which is opaque here.
\<close>

datatype exn =
    KeyError string
  | IndexError
  | TypeError
  | ZeroDivisionError
  | LibraryError string

subsection \<open>The task-name helpers (lines 37-54)\<close>

text \<open>\<^verbatim>\<open>_get_tfds_task\<close>: the name of the task in the dataset library.\<close>

definition get_tfds_task :: "string \<Rightarrow> string" where
  "get_tfds_task t =
    (if t = ''sst-2'' then ''sst2''
     else if t = ''sts-b'' then ''stsb''
     else t)"

text \<open>
  \<^verbatim>\<open>_get_train_length\<close>: the function has no final \<^verbatim>\<open>return\<close>, so for any other task
  Python returns \<^verbatim>\<open>None\<close>.
\<close>

definition get_train_length :: "string \<Rightarrow> int option" where
  "get_train_length t =
    (if t = ''sst-2'' then Some 67349
     else if t = ''sts-b'' then Some 5749
     else None)"

text \<open>
  \<^verbatim>\<open>int(x / b)\<close> for \<^verbatim>\<open>x\<close> the result of \<^verbatim>\<open>_get_train_length\<close> and \<^verbatim>\<open>b\<close> an integer:
  \<^verbatim>\<open>None / b\<close> raises TypeError, division by zero raises ZeroDivisionError, and
  otherwise \<^verbatim>\<open>/\<close> is true division and \<^verbatim>\<open>int\<close> truncates towards zero. For a dividend
  below \<open>2 ^ 53\<close> (the two train lengths are) the rounding of the float quotient never
  reaches the next integer, so the result is the truncated exact quotient.
\<close>

definition trunc_div :: "int \<Rightarrow> int \<Rightarrow> int" where
  "trunc_div a b = sgn a * sgn b * (\<bar>a\<bar> div \<bar>b\<bar>)"

definition int_true_div :: "int option \<Rightarrow> int \<Rightarrow> exn + int" where
  "int_true_div x b =
    (case x of
       None \<Rightarrow> Inl TypeError
     | Some a \<Rightarrow> if b = 0 then Inl ZeroDivisionError else Inr (trunc_div a b))"

text \<open>\<^verbatim>\<open>a // b\<close> on integers: floor division, ZeroDivisionError when \<^verbatim>\<open>b\<close> is 0.\<close>

definition floor_div :: "int \<Rightarrow> int \<Rightarrow> exn + int" where
  "floor_div a b = (if b = 0 then Inl ZeroDivisionError else Inr (a div b))"

subsection \<open>Tensors and slices\<close>

text \<open>
  A tensor is its static shape and its value at every index. \<^verbatim>\<open>slice(a, b)\<close> is
  \<open>Slice a b\<close>, with \<open>None\<close> for an omitted bound; \<^verbatim>\<open>slice(None)\<close> is \<open>Slice None None\<close>.
\<close>

datatype tensor = Tensor (get_shape: "nat list") (value_at: "nat list \<Rightarrow> pyfloat")

datatype slice = Slice "int option" "int option"

text \<open>
  A bound of a slice on a dimension of size \<open>n\<close>, as \<^verbatim>\<open>slice.indices\<close> computes it for
  step 1: an omitted bound is the default, a negative one counts from the end, and both
  are clipped to \<open>0..n\<close>.
\<close>

definition clip_bound :: "int option \<Rightarrow> nat \<Rightarrow> nat \<Rightarrow> nat" where
  "clip_bound b dflt n =
    (case b of
       None \<Rightarrow> dflt
     | Some k \<Rightarrow> if k < 0 then nat (max (k + int n) 0) else min (nat k) n)"

fun slice_bounds :: "slice \<Rightarrow> nat \<Rightarrow> nat \<times> nat" where
  "slice_bounds (Slice start stop) n = (clip_bound start 0 n, clip_bound stop n n)"

fun sliced_shape :: "slice list \<Rightarrow> nat list \<Rightarrow> nat list" where
  "sliced_shape (sl # sls) (n # ns) =
     (case slice_bounds sl n of (lo, hi) \<Rightarrow> (hi - lo) # sliced_shape sls ns)"
| "sliced_shape sls ns = ns"

fun source_index :: "slice list \<Rightarrow> nat list \<Rightarrow> nat list \<Rightarrow> nat list" where
  "source_index (sl # sls) (n # ns) (j # js) =
     (fst (slice_bounds sl n) + j) # source_index sls ns js"
| "source_index sls ns js = js"

text \<open>
  \<^verbatim>\<open>t[slices]\<close> for a tuple of slices: more slices than dimensions is an error;
  otherwise the k-th slice selects along the k-th dimension and the remaining
  dimensions are whole.
\<close>

definition getitem :: "tensor \<Rightarrow> slice list \<Rightarrow> exn + tensor" where
  "getitem t sls =
    (if length (get_shape t) < length sls then Inl IndexError
     else Inr (Tensor (sliced_shape sls (get_shape t))
                 (\<lambda>js. value_at t (source_index sls (get_shape t) js))))"

text \<open>\<^verbatim>\<open>xs[i]\<close> on a list, for a non-negative index.\<close>

definition list_get :: "'a list \<Rightarrow> nat \<Rightarrow> exn + 'a" where
  "list_get xs i = (if i < length xs then Inr (xs ! i) else Inl IndexError)"

subsection \<open>The slicing loop (lines 93-105)\<close>

text \<open>
  The local variables the loop assigns. A variable of the loop is unbound (\<open>None\<close>)
  until the first iteration that assigns it.
\<close>

record loop_vars =
  weight_list :: "tensor list"
  var_i :: "nat option"
  var_large_weight :: "tensor option"
  var_slice_indices :: "slice list option"
  var_s :: "nat option"
  var_sliced_large_weight :: "tensor option"

text \<open>The inner loop over the shape: the list of slices so far and the variable \<^verbatim>\<open>s\<close>.\<close>

fun shape_loop :: "nat list \<Rightarrow> slice list \<times> nat option \<Rightarrow> slice list \<times> nat option" where
  "shape_loop [] acc = acc"
| "shape_loop (d # ds) (slice_indices, s) =
     shape_loop ds
       (if d = 768 then slice_indices @ [Slice (Some 0) (Some 144)]
        else slice_indices @ [Slice None None],
        Some d)"

definition loop_body :: "tensor list \<Rightarrow> nat \<Rightarrow> loop_vars \<Rightarrow> exn + loop_vars" where
  "loop_body ws i v =
    (case list_get ws i of
       Inl e \<Rightarrow> Inl e
     | Inr large_weight \<Rightarrow>
        (case shape_loop (get_shape large_weight) ([], var_s v) of
           (slice_indices, s) \<Rightarrow>
            (case getitem large_weight slice_indices of
               Inl e \<Rightarrow> Inl e
             | Inr sliced_large_weight \<Rightarrow>
                Inr \<lparr>weight_list = weight_list v @ [sliced_large_weight],
                     var_i = Some i,
                     var_large_weight = Some large_weight,
                     var_slice_indices = Some slice_indices,
                     var_s = s,
                     var_sliced_large_weight = Some sliced_large_weight\<rparr>)))"

fun weight_loop :: "tensor list \<Rightarrow> nat list \<Rightarrow> loop_vars \<Rightarrow> exn + loop_vars" where
  "weight_loop ws [] v = Inr v"
| "weight_loop ws (i # rest) v =
     (case loop_body ws i v of
        Inl e \<Rightarrow> Inl e
      | Inr v' \<Rightarrow> weight_loop ws rest v')"

text \<open>Line 93 and the loop over \<^verbatim>\<open>range(len(weights))\<close>.\<close>

definition slice_weights :: "tensor list \<Rightarrow> exn + loop_vars" where
  "slice_weights ws =
    weight_loop ws [0..<length ws]
      \<lparr>weight_list = [], var_i = None, var_large_weight = None,
       var_slice_indices = None, var_s = None, var_sliced_large_weight = None\<rparr>"

subsection \<open>Library objects, named by the expression that built them\<close>

datatype tokenizer = DistilBertTokenizer_from_pretrained string

text \<open>
  \<open>Split name k\<close> is \<^verbatim>\<open>data[k]\<close> of the dataset loaded under \<open>name\<close>; \<open>Features\<close> is
  \<^verbatim>\<open>glue_convert_examples_to_features(examples, tokenizer, max_length, task)\<close>; the other
  three are the methods \<^verbatim>\<open>shuffle\<close>, \<^verbatim>\<open>batch\<close> and \<^verbatim>\<open>repeat\<close>.
\<close>

datatype dataset =
    Split string string
  | Features dataset tokenizer int string
  | Shuffle dataset int
  | Batch dataset int
  | Repeat dataset int

text \<open>
  \<^verbatim>\<open>DistilBertConfig.from_pretrained(name, num_labels=n)\<close> with, when given, the keyword
  \<^verbatim>\<open>dim\<close>.
\<close>

datatype config = DistilBertConfig_from_pretrained string nat "nat option"

datatype model =
    Model_from_pretrained string config
  | Model_init config

datatype optimizer =
    Adam pyfloat pyfloat
  | LossScaleOptimizer optimizer string

datatype loss =
    MeanSquaredError
  | SparseCategoricalCrossentropy bool

datatype metric = SparseCategoricalAccuracy string

text \<open>The values a local variable of \<^verbatim>\<open>train\<close> can hold.\<close>

datatype pyval =
    PyNone
  | PyInt int
  | PyStr string
  | PyStrList "string list"
  | PyTokenizer tokenizer
  | PyData string
  | PyInfo string
  | PyDataset dataset
  | PyConfig config
  | PyModel model
  | PyPredictions model dataset
  | PyTensor tensor
  | PyTensorList "tensor list"
  | PySliceTuple "slice list"
  | PyOptimizer optimizer
  | PyLoss loss
  | PyMetric metric

subsection \<open>Library calls, the world and the environment\<close>

text \<open>
  The calls the script makes into the libraries and the Python runtime. \<open>Construct v\<close>
  is the call that builds the object \<open>v\<close> (a constructor, \<^verbatim>\<open>from_pretrained\<close>, a dataset
  method). \<open>Set_weights m k ws\<close> is \<^verbatim>\<open>m.layers[k].set_weights(ws)\<close>; \<open>Evaluate m d v steps\<close>
  is \<^verbatim>\<open>m.evaluate(d, verbose=v, steps=steps)\<close> with \<open>None\<close> for an omitted \<^verbatim>\<open>steps\<close>;
  \<open>Fit m d e n vd vn\<close> is \<^verbatim>\<open>m.fit(d, epochs=e, steps_per_epoch=n, validation_data=vd,
  validation_steps=vn)\<close>; \<open>Print_var name v\<close> prints the line made of \<open>name\<close>, a colon,
  a tab and the text of \<open>v\<close>. \<open>Set_up_environment\<close> is \<^verbatim>\<open>utils.set_up_environment()\<close> of
  the package \<^verbatim>\<open>path_explain\<close>, whose body is outside this script: it is a call like the
  others, which returns or raises.
\<close>

datatype call =
    Set_up_environment
  | Set_jit bool
  | Set_experimental_options "(string \<times> bool) list"
  | Get_labels string
  | Tfds_load string bool
  | Construct pyval
  | Predict model dataset
  | Set_weights model nat "tensor list"
  | Compile model optimizer loss "metric list"
  | Summary model
  | Print string
  | Print_var string pyval
  | Evaluate model dataset int "int option"
  | Fit model dataset int int dataset int
  | Makedirs string bool
  | Save_pretrained model string

text \<open>
  The world: the paths that exist on the filesystem and the calls issued so far, oldest
  first (a call that raised is recorded too, as the last one).
\<close>

record world =
  fs :: "string set"
  calls :: "call list"

text \<open>
  What the script reads from the libraries, and whether a call raises: \<open>raises env h c\<close>
  is the exception call \<open>c\<close> raises when issued after the calls \<open>h\<close>, if any.
  \<open>glue_processors\<close> is the dictionary of that name, each processor given by the labels it
  returns; \<open>splits env name\<close> is \<^verbatim>\<open>info.splits\<close> of the dataset \<open>name\<close>, each split given
  by its \<^verbatim>\<open>num_examples\<close>; \<open>layer_weights env m k\<close> is \<^verbatim>\<open>m.layers[k].weights\<close>.
\<close>

record env =
  raises :: "call list \<Rightarrow> call \<Rightarrow> exn option"
  glue_processors :: "string \<rightharpoonup> string option list"
  splits :: "string \<Rightarrow> (string \<rightharpoonup> nat)"
  layer_weights :: "model \<Rightarrow> nat \<Rightarrow> tensor list"

text \<open>
  What a call that returns does to the filesystem: \<^verbatim>\<open>os.makedirs\<close> creates the
  directory, \<^verbatim>\<open>save_pretrained\<close> writes the configuration and the weights file
  \<^verbatim>\<open>tf_model.h5\<close> (the file line 135 looks for) into it. Paths are compared as written.
\<close>

fun fs_effect :: "call \<Rightarrow> string set \<Rightarrow> string set" where
  "fs_effect (Makedirs p exist_ok) files = insert p files"
| "fs_effect (Save_pretrained m p) files =
     insert (p @ ''config.json'') (insert (p @ ''tf_model.h5'') files)"
| "fs_effect c files = files"

subsection \<open>Computations: a result or an exception, and the world after\<close>

type_synonym 'r io = "world \<Rightarrow> (exn + 'r) \<times> world"

definition io_return :: "'r \<Rightarrow> 'r io" where
  "io_return x = (\<lambda>w. (Inr x, w))"

definition io_raise :: "exn \<Rightarrow> 'r io" where
  "io_raise e = (\<lambda>w. (Inl e, w))"

text \<open>Sequencing: an exception of the first part ends the computation.\<close>

definition io_bind :: "'r io \<Rightarrow> ('r \<Rightarrow> 'q io) \<Rightarrow> 'q io" where
  "io_bind m k =
    (\<lambda>w. case m w of
            (Inl e, w') \<Rightarrow> (Inl e, w')
          | (Inr x, w') \<Rightarrow> k x w')"

definition io_lift :: "exn + 'r \<Rightarrow> 'r io" where
  "io_lift r = (\<lambda>w. (r, w))"

definition lib_call :: "env \<Rightarrow> call \<Rightarrow> unit io" where
  "lib_call env c =
    (\<lambda>w. case raises env (calls w) c of
            Some e \<Rightarrow> (Inl e, w\<lparr>calls := calls w @ [c]\<rparr>)
          | None \<Rightarrow> (Inr (), \<lparr>fs = fs_effect c (fs w), calls = calls w @ [c]\<rparr>))"

text \<open>\<^verbatim>\<open>d[k]\<close> on a dictionary.\<close>

definition dict_get :: "(string \<rightharpoonup> 'v) \<Rightarrow> string \<Rightarrow> 'v io" where
  "dict_get d k = (case d k of None \<Rightarrow> io_raise (KeyError k) | Some v \<Rightarrow> io_return v)"

text \<open>\<^verbatim>\<open>os.path.exists\<close>.\<close>

definition path_exists :: "string \<Rightarrow> bool io" where
  "path_exists p = (\<lambda>w. (Inr (p \<in> fs w), w))"

text \<open>
  The dictionary \<^verbatim>\<open>data\<close> returned by the dataset library: one dataset per split of
  \<^verbatim>\<open>info.splits\<close>.
\<close>

definition tfds_data :: "env \<Rightarrow> string \<Rightarrow> (string \<rightharpoonup> dataset)" where
  "tfds_data env name k = (case splits env name k of None \<Rightarrow> None | Some n \<Rightarrow> Some (Split name k))"

subsection \<open>\<^verbatim>\<open>_set_config\<close> (lines 29-35)\<close>

definition set_config :: "env \<Rightarrow> flags \<Rightarrow> unit io" where
  "set_config env FLAGS =
    io_bind (lib_call env Set_up_environment) (\<lambda>_.
    io_bind (lib_call env (Set_jit (use_xla FLAGS))) (\<lambda>_.
    lib_call env (Set_experimental_options [(''auto_mixed_precision'', use_amp FLAGS)])))"

subsection \<open>\<^verbatim>\<open>train\<close>: lines 60-124, up to \<^verbatim>\<open>model.compile\<close>\<close>

text \<open>
  The local variables of \<^verbatim>\<open>train\<close> after line 124. \<open>data\<close> and \<open>info\<close> hold the name the
  dataset was loaded under, \<open>underscore\<close> is the variable \<^verbatim>\<open>_\<close>, and \<open>loop\<close> holds
  \<^verbatim>\<open>weight_list\<close> and the variables of the slicing loop.
\<close>

record train_locals =
  argv :: pyval
  num_labels :: nat
  tokenizer :: tokenizer
  data :: string
  info :: string
  train_examples :: nat
  valid_examples :: nat
  train_dataset :: dataset
  valid_dataset :: dataset
  large_config :: config
  large_model :: model
  config :: config
  model :: model
  underscore :: pyval
  loop :: loop_vars
  opt :: optimizer
  loss :: loss
  metric :: metric
  model_path :: string

definition prepare :: "env \<Rightarrow> flags \<Rightarrow> pyval \<Rightarrow> train_locals io" where
  "prepare env FLAGS argv0 =
    io_bind (set_config env FLAGS) (\<lambda>_.
    io_bind (dict_get (glue_processors env) (task FLAGS)) (\<lambda>labels.
    io_bind (lib_call env (Get_labels (task FLAGS))) (\<lambda>_.
    let num_labels0 = length labels;
        tokenizer0 = DistilBertTokenizer_from_pretrained ''distilbert-base-uncased'' in
    io_bind (lib_call env (Construct (PyTokenizer tokenizer0))) (\<lambda>_.
    let name = ''glue/'' @ get_tfds_task (task FLAGS) in
    io_bind (lib_call env (Tfds_load name True)) (\<lambda>_.
    io_bind (dict_get (splits env name) ''train'') (\<lambda>train_examples0.
    io_bind (dict_get (splits env name) ''validation'') (\<lambda>valid_examples0.
    io_bind (dict_get (tfds_data env name) ''train'') (\<lambda>data_train.
    let train_dataset0 = Features data_train tokenizer0 (max_length FLAGS) (task FLAGS) in
    io_bind (lib_call env (Construct (PyDataset train_dataset0))) (\<lambda>_.
    io_bind (dict_get (tfds_data env name) ''validation'') (\<lambda>data_validation.
    let valid_dataset0 = Features data_validation tokenizer0 (max_length FLAGS) (task FLAGS) in
    io_bind (lib_call env (Construct (PyDataset valid_dataset0))) (\<lambda>_.
    let shuffled = Shuffle train_dataset0 (buffer_size FLAGS) in
    io_bind (lib_call env (Construct (PyDataset shuffled))) (\<lambda>_.
    let batched = Batch shuffled (batch_size FLAGS) in
    io_bind (lib_call env (Construct (PyDataset batched))) (\<lambda>_.
    let train_dataset1 = Repeat batched (- 1) in
    io_bind (lib_call env (Construct (PyDataset train_dataset1))) (\<lambda>_.
    let valid_dataset1 = Batch valid_dataset0 (batch_size FLAGS * 2) in
    io_bind (lib_call env (Construct (PyDataset valid_dataset1))) (\<lambda>_.
    let large_config0 =
          DistilBertConfig_from_pretrained ''distilbert-base-uncased'' num_labels0 None in
    io_bind (lib_call env (Construct (PyConfig large_config0))) (\<lambda>_.
    let large_model0 = Model_from_pretrained ''distilbert-base-uncased'' large_config0 in
    io_bind (lib_call env (Construct (PyModel large_model0))) (\<lambda>_.
    let config0 =
          DistilBertConfig_from_pretrained ''distilbert-base-uncased'' num_labels0 (Some 144) in
    io_bind (lib_call env (Construct (PyConfig config0))) (\<lambda>_.
    let model0 = Model_init config0 in
    io_bind (lib_call env (Construct (PyModel model0))) (\<lambda>_.
    io_bind (lib_call env (Predict model0 valid_dataset1)) (\<lambda>_.
    io_bind (io_lift (slice_weights (layer_weights env large_model0 0))) (\<lambda>loop0.
    io_bind (lib_call env (Set_weights model0 0 (weight_list loop0))) (\<lambda>_.
    let adam = Adam (learning_rate FLAGS) (epsilon FLAGS) in
    io_bind (lib_call env (Construct (PyOptimizer adam))) (\<lambda>_.
    io_bind (if use_amp FLAGS
             then io_bind (lib_call env (Construct (PyOptimizer (LossScaleOptimizer adam ''dynamic''))))
                    (\<lambda>_. io_return (LossScaleOptimizer adam ''dynamic''))
             else io_return adam) (\<lambda>opt0.
    let loss0 = (if num_labels0 = 1 then MeanSquaredError
                 else SparseCategoricalCrossentropy True) in
    io_bind (lib_call env (Construct (PyLoss loss0))) (\<lambda>_.
    let metric0 = SparseCategoricalAccuracy ''accuracy'' in
    io_bind (lib_call env (Construct (PyMetric metric0))) (\<lambda>_.
    let model_path0 = ''./'' @ get_tfds_task (task FLAGS) @ ''/'' in
    io_bind (lib_call env (Compile model0 opt0 loss0 [metric0])) (\<lambda>_.
    io_return
      \<lparr>argv = argv0, num_labels = num_labels0, tokenizer = tokenizer0,
       data = name, info = name,
       train_examples = train_examples0, valid_examples = valid_examples0,
       train_dataset = train_dataset1, valid_dataset = valid_dataset1,
       large_config = large_config0, large_model = large_model0,
       config = config0, model = model0,
       underscore = PyPredictions model0 valid_dataset1,
       loop = loop0, opt = opt0, loss = loss0, metric = metric0,
       model_path = model_path0\<rparr>)))))))))))))))))))))))))))"

subsection \<open>\<^verbatim>\<open>train\<close>: the evaluate branch (lines 126-133)\<close>

definition evaluate_branch :: "env \<Rightarrow> flags \<Rightarrow> train_locals \<Rightarrow> unit io" where
  "evaluate_branch env FLAGS L =
    io_bind (lib_call env (Print ''Model summary:'')) (\<lambda>_.
    io_bind (lib_call env (Summary (model L))) (\<lambda>_.
    io_bind (lib_call env (Print ''None'')) (\<lambda>_.
    io_bind (lib_call env (Print ''Evaluating on the training dataset...'')) (\<lambda>_.
    io_bind (io_lift (int_true_div (get_train_length (task FLAGS)) (batch_size FLAGS))) (\<lambda>steps.
    io_bind (lib_call env (Evaluate (model L) (train_dataset L) 2 (Some steps))) (\<lambda>_.
    io_bind (lib_call env (Print ''Evaluating on the validation dataset...'')) (\<lambda>_.
    lib_call env (Evaluate (model L) (valid_dataset L) 2 None))))))))"

subsection \<open>\<^verbatim>\<open>train\<close>: the branch that skips training (lines 136-142)\<close>

text \<open>
  \<^verbatim>\<open>locals()\<close> at line 138: the local variables bound so far with their values, in the
  order of their first assignment in the function. \<^verbatim>\<open>local_vars\<close>, \<^verbatim>\<open>variable\<close>,
  \<^verbatim>\<open>train_steps\<close> and \<^verbatim>\<open>valid_steps\<close> are not bound yet; \<^verbatim>\<open>FLAGS\<close> is a global of the
  module, not a local.
\<close>

definition bound_var :: "string \<Rightarrow> 'a option \<Rightarrow> ('a \<Rightarrow> pyval) \<Rightarrow> (string \<times> pyval) list" where
  "bound_var name v f = (case v of None \<Rightarrow> [] | Some x \<Rightarrow> [(name, f x)])"

definition locals :: "train_locals \<Rightarrow> (string \<times> pyval) list" where
  "locals L =
    [(''argv'', argv L),
     (''num_labels'', PyInt (int (num_labels L))),
     (''tokenizer'', PyTokenizer (tokenizer L)),
     (''data'', PyData (data L)),
     (''info'', PyInfo (info L)),
     (''train_examples'', PyInt (int (train_examples L))),
     (''valid_examples'', PyInt (int (valid_examples L))),
     (''train_dataset'', PyDataset (train_dataset L)),
     (''valid_dataset'', PyDataset (valid_dataset L)),
     (''large_config'', PyConfig (large_config L)),
     (''large_model'', PyModel (large_model L)),
     (''config'', PyConfig (config L)),
     (''model'', PyModel (model L)),
     (''_'', underscore L),
     (''weight_list'', PyTensorList (weight_list (loop L)))]
    @ bound_var ''i'' (var_i (loop L)) (\<lambda>n. PyInt (int n))
    @ bound_var ''large_weight'' (var_large_weight (loop L)) PyTensor
    @ bound_var ''slice_indices'' (var_slice_indices (loop L)) PySliceTuple
    @ bound_var ''s'' (var_s (loop L)) (\<lambda>n. PyInt (int n))
    @ bound_var ''sliced_large_weight'' (var_sliced_large_weight (loop L)) PyTensor
    @ [(''opt'', PyOptimizer (opt L)),
       (''loss'', PyLoss (loss L)),
       (''metric'', PyMetric (metric L)),
       (''model_path'', PyStr (model_path L))]"

text \<open>\<^verbatim>\<open>variable.startswith('-')\<close>.\<close>

definition startswith_dash :: "string \<Rightarrow> bool" where
  "startswith_dash n = (case n of [] \<Rightarrow> False | c # cs \<Rightarrow> c = CHR ''-'')"

fun print_local_vars :: "env \<Rightarrow> (string \<times> pyval) list \<Rightarrow> unit io" where
  "print_local_vars env [] = io_return ()"
| "print_local_vars env ((variable, v) # rest) =
     io_bind (if \<not> startswith_dash variable then lib_call env (Print_var variable v)
              else io_return ()) (\<lambda>_.
     print_local_vars env rest)"

definition skip_message :: "string \<Rightarrow> string" where
  "skip_message path =
    ''Model in '' @ path @ '' already exists. Skipping training. ''
    @ ''If you would like to force a re-train, set the force_train flag.''"

definition skip_branch :: "env \<Rightarrow> train_locals \<Rightarrow> unit io" where
  "skip_branch env L =
    io_bind (lib_call env (Print (skip_message (model_path L)))) (\<lambda>_.
    print_local_vars env (locals L))"

subsection \<open>\<^verbatim>\<open>train\<close>: training and saving (lines 144-154)\<close>

definition fit_branch :: "env \<Rightarrow> flags \<Rightarrow> train_locals \<Rightarrow> unit io" where
  "fit_branch env FLAGS L =
    io_bind (io_lift (floor_div (int (train_examples L)) (batch_size FLAGS))) (\<lambda>train_steps.
    io_bind (io_lift (floor_div (int (valid_examples L)) (batch_size FLAGS * 2))) (\<lambda>valid_steps.
    io_bind (lib_call env (Fit (model L) (train_dataset L) (epochs FLAGS) train_steps
                             (valid_dataset L) valid_steps)) (\<lambda>_.
    io_bind (lib_call env (Makedirs (model_path L) True)) (\<lambda>_.
    lib_call env (Save_pretrained (model L) (model_path L))))))"

subsection \<open>\<^verbatim>\<open>train\<close> (lines 56-154)\<close>

definition train :: "env \<Rightarrow> flags \<Rightarrow> pyval \<Rightarrow> unit io" where
  "train env FLAGS argv0 =
    io_bind (prepare env FLAGS argv0) (\<lambda>L.
    if evaluate FLAGS then evaluate_branch env FLAGS L
    else
      io_bind (path_exists (model_path L @ ''tf_model.h5'')) (\<lambda>found.
      if found \<and> \<not> force_train FLAGS then skip_branch env L
      else fit_branch env FLAGS L))"

text \<open>A run of the script: \<^verbatim>\<open>train\<close> from a world where no call has been issued yet.\<close>

definition start :: "string set \<Rightarrow> world" where
  "start files = \<lparr>fs = files, calls = []\<rparr>"

section \<open>What the script is expected to do, and the vocabulary of the proofs\<close>

subsection \<open>The transplanted weight\<close>

text \<open>
  A dimension of size 768 is cut to its first 144 entries and any other dimension is
  kept whole; the values stay at their indices.
\<close>

definition sliced_dim :: "nat \<Rightarrow> nat" where
  "sliced_dim d = (if d = 768 then 144 else d)"

definition slice_of_dim :: "nat \<Rightarrow> slice" where
  "slice_of_dim d = (if d = 768 then Slice (Some 0) (Some 144) else Slice None None)"

definition sliced_weight :: "tensor \<Rightarrow> tensor" where
  "sliced_weight t = Tensor (map sliced_dim (get_shape t)) (value_at t)"

subsection \<open>The calls of a run that returns\<close>

definition the_optimizer :: "flags \<Rightarrow> optimizer" where
  "the_optimizer FLAGS =
    (if use_amp FLAGS
     then LossScaleOptimizer (Adam (learning_rate FLAGS) (epsilon FLAGS)) ''dynamic''
     else Adam (learning_rate FLAGS) (epsilon FLAGS))"

text \<open>The local variables after line 124, in terms of the flags and the environment.\<close>

definition prepared :: "env \<Rightarrow> flags \<Rightarrow> pyval \<Rightarrow> train_locals \<Rightarrow> bool" where
  "prepared env FLAGS a L \<longleftrightarrow>
     argv L = a
   \<and> (\<exists>labels. glue_processors env (task FLAGS) = Some labels \<and> num_labels L = length labels)
   \<and> tokenizer L = DistilBertTokenizer_from_pretrained ''distilbert-base-uncased''
   \<and> data L = ''glue/'' @ get_tfds_task (task FLAGS)
   \<and> info L = data L
   \<and> splits env (data L) ''train'' = Some (train_examples L)
   \<and> splits env (data L) ''validation'' = Some (valid_examples L)
   \<and> train_dataset L =
        Repeat (Batch (Shuffle (Features (Split (data L) ''train'') (tokenizer L)
                                  (max_length FLAGS) (task FLAGS))
                         (buffer_size FLAGS))
                  (batch_size FLAGS))
          (- 1)
   \<and> valid_dataset L =
        Batch (Features (Split (data L) ''validation'') (tokenizer L)
                 (max_length FLAGS) (task FLAGS))
          (batch_size FLAGS * 2)
   \<and> large_config L =
        DistilBertConfig_from_pretrained ''distilbert-base-uncased'' (num_labels L) None
   \<and> large_model L = Model_from_pretrained ''distilbert-base-uncased'' (large_config L)
   \<and> config L =
        DistilBertConfig_from_pretrained ''distilbert-base-uncased'' (num_labels L) (Some 144)
   \<and> model L = Model_init (config L)
   \<and> underscore L = PyPredictions (model L) (valid_dataset L)
   \<and> slice_weights (layer_weights env (large_model L) 0) = Inr (loop L)
   \<and> opt L = the_optimizer FLAGS
   \<and> loss L = (if num_labels L = 1 then MeanSquaredError else SparseCategoricalCrossentropy True)
   \<and> metric L = SparseCategoricalAccuracy ''accuracy''
   \<and> model_path L = ''./'' @ get_tfds_task (task FLAGS) @ ''/''"

text \<open>The calls of lines 60-124, in order.\<close>

definition prepare_calls :: "flags \<Rightarrow> train_locals \<Rightarrow> call list" where
  "prepare_calls FLAGS L =
    [Set_up_environment,
     Set_jit (use_xla FLAGS),
     Set_experimental_options [(''auto_mixed_precision'', use_amp FLAGS)],
     Get_labels (task FLAGS),
     Construct (PyTokenizer (tokenizer L)),
     Tfds_load (''glue/'' @ get_tfds_task (task FLAGS)) True,
     Construct (PyDataset (Features (Split (data L) ''train'') (tokenizer L)
                             (max_length FLAGS) (task FLAGS))),
     Construct (PyDataset (Features (Split (data L) ''validation'') (tokenizer L)
                             (max_length FLAGS) (task FLAGS))),
     Construct (PyDataset (Shuffle (Features (Split (data L) ''train'') (tokenizer L)
                                      (max_length FLAGS) (task FLAGS))
                             (buffer_size FLAGS))),
     Construct (PyDataset (Batch (Shuffle (Features (Split (data L) ''train'') (tokenizer L)
                                             (max_length FLAGS) (task FLAGS))
                                    (buffer_size FLAGS))
                             (batch_size FLAGS))),
     Construct (PyDataset (train_dataset L)),
     Construct (PyDataset (valid_dataset L)),
     Construct (PyConfig (large_config L)),
     Construct (PyModel (large_model L)),
     Construct (PyConfig (config L)),
     Construct (PyModel (model L)),
     Predict (model L) (valid_dataset L),
     Set_weights (model L) 0 (weight_list (loop L)),
     Construct (PyOptimizer (Adam (learning_rate FLAGS) (epsilon FLAGS)))]
    @ (if use_amp FLAGS then [Construct (PyOptimizer (opt L))] else [])
    @ [Construct (PyLoss (loss L)),
       Construct (PyMetric (metric L)),
       Compile (model L) (opt L) (loss L) [metric L]]"

text \<open>The calls of the three branches.\<close>

definition evaluate_calls :: "train_locals \<Rightarrow> int \<Rightarrow> call list" where
  "evaluate_calls L steps =
    [Print ''Model summary:'',
     Summary (model L),
     Print ''None'',
     Print ''Evaluating on the training dataset...'',
     Evaluate (model L) (train_dataset L) 2 (Some steps),
     Print ''Evaluating on the validation dataset...'',
     Evaluate (model L) (valid_dataset L) 2 None]"

definition skip_calls :: "train_locals \<Rightarrow> call list" where
  "skip_calls L =
    Print (skip_message (model_path L)) # map (\<lambda>(name, v). Print_var name v) (locals L)"

definition fit_calls :: "flags \<Rightarrow> train_locals \<Rightarrow> call list" where
  "fit_calls FLAGS L =
    [Fit (model L) (train_dataset L) (epochs FLAGS)
       (int (train_examples L) div batch_size FLAGS)
       (valid_dataset L)
       (int (valid_examples L) div (batch_size FLAGS * 2)),
     Makedirs (model_path L) True,
     Save_pretrained (model L) (model_path L)]"

subsection \<open>Kinds of calls\<close>

fun is_fit :: "call \<Rightarrow> bool" where
  "is_fit (Fit m d e n vd vn) = True"
| "is_fit c = False"

fun is_evaluate :: "call \<Rightarrow> bool" where
  "is_evaluate (Evaluate m d v steps) = True"
| "is_evaluate c = False"

fun is_makedirs :: "call \<Rightarrow> bool" where
  "is_makedirs (Makedirs p exist_ok) = True"
| "is_makedirs c = False"

fun is_save_pretrained :: "call \<Rightarrow> bool" where
  "is_save_pretrained (Save_pretrained m p) = True"
| "is_save_pretrained c = False"

text \<open>The names of the variables printed, and the paths saved to, in order.\<close>

fun printed_names :: "call list \<Rightarrow> string list" where
  "printed_names [] = []"
| "printed_names (Print_var name v # cs) = name # printed_names cs"
| "printed_names (c # cs) = printed_names cs"

fun saved_paths :: "call list \<Rightarrow> string list" where
  "saved_paths [] = []"
| "saved_paths (Save_pretrained m p # cs) = p # saved_paths cs"
| "saved_paths (c # cs) = saved_paths cs"

text \<open>A call that leaves the filesystem as it is.\<close>

fun quiet :: "call \<Rightarrow> bool" where
  "quiet (Makedirs p exist_ok) = False"
| "quiet (Save_pretrained m p) = False"
| "quiet c = True"

subsection \<open>Invariants of computations\<close>

text \<open>
  \<open>only P m\<close>: every call \<open>m\<close> issues satisfies \<open>P\<close>, whether \<open>m\<close> returns or raises, and
  if all of them are quiet the filesystem is unchanged.
\<close>

definition only :: "(call \<Rightarrow> bool) \<Rightarrow> 'r io \<Rightarrow> bool" where
  "only P m \<longleftrightarrow>
    (\<forall>w r w'. m w = (r, w') \<longrightarrow>
       (\<exists>new. calls w' = calls w @ new \<and> list_all P new
          \<and> (list_all quiet new \<longrightarrow> fs w' = fs w)))"

text \<open>What the calls of lines 60-124 can be, and those of the branches.\<close>

fun prep_ok :: "env \<Rightarrow> flags \<Rightarrow> call \<Rightarrow> bool" where
  "prep_ok env FLAGS Set_up_environment = True"
| "prep_ok env FLAGS (Set_jit b) = (b = use_xla FLAGS)"
| "prep_ok env FLAGS (Set_experimental_options opts) =
     (opts = [(''auto_mixed_precision'', use_amp FLAGS)])"
| "prep_ok env FLAGS (Get_labels t) = (t = task FLAGS)"
| "prep_ok env FLAGS (Tfds_load name with_info) =
     (name = ''glue/'' @ get_tfds_task (task FLAGS) \<and> with_info)"
| "prep_ok env FLAGS (Construct (PyOptimizer (Adam lr eps))) =
     (lr = learning_rate FLAGS \<and> eps = epsilon FLAGS)"
| "prep_ok env FLAGS (Construct (PyOptimizer (LossScaleOptimizer inner scale))) =
     (use_amp FLAGS \<and> inner = Adam (learning_rate FLAGS) (epsilon FLAGS) \<and> scale = ''dynamic'')"
| "prep_ok env FLAGS (Construct v) = True"
| "prep_ok env FLAGS (Predict m d) = True"
| "prep_ok env FLAGS (Set_weights m k xs) =
     (\<exists>labels. glue_processors env (task FLAGS) = Some labels
        \<and> m = Model_init (DistilBertConfig_from_pretrained ''distilbert-base-uncased''
                           (length labels) (Some 144))
        \<and> k = 0
        \<and> xs = map sliced_weight
                 (layer_weights env
                    (Model_from_pretrained ''distilbert-base-uncased''
                       (DistilBertConfig_from_pretrained ''distilbert-base-uncased''
                          (length labels) None))
                    0))"
| "prep_ok env FLAGS (Compile m opt0 l ms) = (opt0 = the_optimizer FLAGS)"
| "prep_ok env FLAGS c = False"

fun branch_ok :: "flags \<Rightarrow> call \<Rightarrow> bool" where
  "branch_ok FLAGS (Summary m) = evaluate FLAGS"
| "branch_ok FLAGS (Print s) = True"
| "branch_ok FLAGS (Print_var name v) = (\<not> evaluate FLAGS \<and> \<not> force_train FLAGS)"
| "branch_ok FLAGS (Evaluate m d v steps) = (evaluate FLAGS \<and> v = 2)"
| "branch_ok FLAGS (Fit m d e n vd vn) = (\<not> evaluate FLAGS \<and> e = epochs FLAGS)"
| "branch_ok FLAGS (Makedirs p exist_ok) =
     (\<not> evaluate FLAGS \<and> p = ''./'' @ get_tfds_task (task FLAGS) @ ''/'' \<and> exist_ok)"
| "branch_ok FLAGS (Save_pretrained m p) =
     (\<not> evaluate FLAGS \<and> p = ''./'' @ get_tfds_task (task FLAGS) @ ''/'')"
| "branch_ok FLAGS c = False"

definition call_ok :: "env \<Rightarrow> flags \<Rightarrow> call \<Rightarrow> bool" where
  "call_ok env FLAGS c \<longleftrightarrow> prep_ok env FLAGS c \<or> branch_ok FLAGS c"

text \<open>
  \<open>clean env h\<close>: no call of the history \<open>h\<close> raised. \<open>propagates env own m\<close>: started
  after a clean history, \<open>m\<close> either returns after a clean history, or raises one of the
  script's own exceptions \<open>own\<close> after a clean history, or raises what its last call
  raised, every earlier call having returned.
\<close>

definition clean :: "env \<Rightarrow> call list \<Rightarrow> bool" where
  "clean env h \<longleftrightarrow> (\<forall>k<length h. raises env (take k h) (h ! k) = None)"

definition propagates :: "env \<Rightarrow> exn set \<Rightarrow> 'r io \<Rightarrow> bool" where
  "propagates env own m \<longleftrightarrow>
    (\<forall>w r w'. m w = (r, w') \<longrightarrow> clean env (calls w) \<longrightarrow>
       (case r of
          Inr x \<Rightarrow> clean env (calls w')
        | Inl e \<Rightarrow> (clean env (calls w') \<and> e \<in> own)
                  \<or> (\<exists>h c. calls w' = h @ [c] \<and> clean env h \<and> raises env h c = Some e)))"

text \<open>The exceptions the script's own expressions raise, each with its cause.\<close>

definition own_exceptions :: "env \<Rightarrow> flags \<Rightarrow> exn set" where
  "own_exceptions env FLAGS =
    {e. (e = KeyError (task FLAGS) \<and> glue_processors env (task FLAGS) = None)
      \<or> (e = KeyError ''train''
           \<and> splits env (''glue/'' @ get_tfds_task (task FLAGS)) ''train'' = None)
      \<or> (e = KeyError ''validation''
           \<and> splits env (''glue/'' @ get_tfds_task (task FLAGS)) ''validation'' = None)
      \<or> (e = TypeError \<and> evaluate FLAGS \<and> get_train_length (task FLAGS) = None)
      \<or> (e = ZeroDivisionError \<and> batch_size FLAGS = 0
           \<and> (evaluate FLAGS \<longrightarrow> get_train_length (task FLAGS) \<noteq> None))}"

subsection \<open>Example environments\<close>

text \<open>
  No call raises; the processors of three tasks; the splits of two datasets; and two
  weights in every layer, one with a dimension of size 768.
\<close>

definition example_env :: env where
  "example_env =
    \<lparr>raises = (\<lambda>h c. None),
     glue_processors =
       [''sst-2'' \<mapsto> [Some ''0'', Some ''1''],
        ''sts-b'' \<mapsto> [None],
        ''mrpc'' \<mapsto> [Some ''0'', Some ''1'']],
     splits = (\<lambda>name. if name = ''glue/sst2''
                       then [''train'' \<mapsto> 67349, ''validation'' \<mapsto> 872]
                       else if name = ''glue/mrpc''
                       then [''train'' \<mapsto> 3668, ''validation'' \<mapsto> 408]
                       else Map.empty),
     layer_weights = (\<lambda>m k. [Tensor [768, 3072] (\<lambda>js. 0), Tensor [3072] (\<lambda>js. 1)])\<rparr>"


section \<open>Lemmas\<close>

subsection \<open>The slicing loop\<close>

lemma shape_loop_eq:
  "shape_loop ds (acc, s) = (acc @ map slice_of_dim ds, if ds = [] then s else Some (last ds))"
  by (induction ds arbitrary: acc s) (auto simp: slice_of_dim_def)

lemma slice_bounds_slice_of_dim: "slice_bounds (slice_of_dim d) d = (0, sliced_dim d)"
  by (simp add: slice_of_dim_def sliced_dim_def clip_bound_def)

lemma sliced_shape_slice_of_dim: "sliced_shape (map slice_of_dim ds) ds = map sliced_dim ds"
  by (induction ds) (simp_all add: slice_bounds_slice_of_dim)

lemma source_index_slice_of_dim: "source_index (map slice_of_dim ds) ds js = js"
proof (induction ds arbitrary: js)
  case Nil
  show ?case by simp
next
  case (Cons d ds)
  show ?case
  proof (cases js)
    case Nil
    then show ?thesis by simp
  next
    case (Cons j js')
    with Cons.IH show ?thesis by (simp add: slice_bounds_slice_of_dim)
  qed
qed

lemma getitem_slice_of_dim: "getitem t (map slice_of_dim (get_shape t)) = Inr (sliced_weight t)"
  by (simp add: getitem_def sliced_shape_slice_of_dim source_index_slice_of_dim sliced_weight_def)

lemma loop_body_eq:
  assumes "i < length ws"
  shows "loop_body ws i v =
    Inr \<lparr>weight_list = weight_list v @ [sliced_weight (ws ! i)],
         var_i = Some i,
         var_large_weight = Some (ws ! i),
         var_slice_indices = Some (map slice_of_dim (get_shape (ws ! i))),
         var_s = (if get_shape (ws ! i) = [] then var_s v else Some (last (get_shape (ws ! i)))),
         var_sliced_large_weight = Some (sliced_weight (ws ! i))\<rparr>"
  using assms by (simp add: loop_body_def list_get_def shape_loop_eq getitem_slice_of_dim)

lemma weight_loop_eq:
  assumes "\<forall>i \<in> set ns. i < length ws"
  shows "\<exists>v'. weight_loop ws ns v = Inr v'
           \<and> weight_list v' = weight_list v @ map (\<lambda>i. sliced_weight (ws ! i)) ns"
  using assms
proof (induction ns arbitrary: v)
  case Nil
  show ?case by simp
next
  case (Cons n ns)
  then have n: "n < length ws" and rest: "\<forall>i \<in> set ns. i < length ws" by simp_all
  obtain v1 where v1: "loop_body ws n v = Inr v1"
    "weight_list v1 = weight_list v @ [sliced_weight (ws ! n)]"
    by (simp add: loop_body_eq [OF n])
  from Cons.IH [OF rest, of v1] obtain v' where
    "weight_loop ws ns v1 = Inr v'"
    "weight_list v' = weight_list v1 @ map (\<lambda>i. sliced_weight (ws ! i)) ns"
    by blast
  with v1 show ?case by simp
qed

lemma map_over_indices: "map (\<lambda>i. f (xs ! i)) [0..<length xs] = map f xs"
proof -
  have "map (\<lambda>i. f (xs ! i)) [0..<length xs] = map f (map ((!) xs) [0..<length xs])"
    by (simp add: comp_def)
  also have "\<dots> = map f xs"
    by (simp only: map_nth)
  finally show ?thesis .
qed

lemma slice_weights_eq:
  "\<exists>v. slice_weights ws = Inr v \<and> weight_list v = map sliced_weight ws"
proof -
  let ?v0 = "\<lparr>weight_list = [], var_i = None, var_large_weight = None,
       var_slice_indices = None, var_s = None, var_sliced_large_weight = None\<rparr>"
  have "\<forall>i \<in> set [0..<length ws]. i < length ws" by simp
  from weight_loop_eq [OF this, of ?v0] obtain v where
    "weight_loop ws [0..<length ws] ?v0 = Inr v"
    "weight_list v = weight_list ?v0 @ map (\<lambda>i. sliced_weight (ws ! i)) [0..<length ws]"
    by blast
  then show ?thesis
    by (simp add: slice_weights_def map_over_indices)
qed

lemma slice_weights_Inr: "slice_weights ws = Inr v \<Longrightarrow> weight_list v = map sliced_weight ws"
  using slice_weights_eq [of ws] by auto

lemma slice_weights_not_Inl: "slice_weights ws \<noteq> Inl e"
  using slice_weights_eq [of ws] by auto

subsection \<open>Runs that return\<close>

lemma io_bind_Inr:
  "io_bind m k w = (Inr y, w') \<longleftrightarrow> (\<exists>x w1. m w = (Inr x, w1) \<and> k x w1 = (Inr y, w'))"
  by (auto simp: io_bind_def split: prod.splits sum.splits)

lemma io_return_eq: "io_return x w = (r, w') \<longleftrightarrow> r = Inr x \<and> w' = w"
  by (auto simp: io_return_def)

lemma io_lift_eq: "io_lift x w = (r, w') \<longleftrightarrow> r = x \<and> w' = w"
  by (auto simp: io_lift_def)

lemma lib_call_Inr:
  "lib_call env c w = (Inr u, w') \<longleftrightarrow>
     raises env (calls w) c = None \<and> w' = \<lparr>fs = fs_effect c (fs w), calls = calls w @ [c]\<rparr>"
  by (auto simp: lib_call_def split: option.splits)

lemma dict_get_Inr: "dict_get d k w = (Inr v, w') \<longleftrightarrow> d k = Some v \<and> w' = w"
  by (auto simp: dict_get_def io_raise_def io_return_def split: option.splits)

lemma tfds_data_Some:
  "tfds_data env name k = Some d \<longleftrightarrow> (\<exists>n. splits env name k = Some n) \<and> d = Split name k"
  by (auto simp: tfds_data_def split: option.splits)

lemma io_bind_InrE:
  assumes "io_bind m k w = (Inr y, w')"
  obtains x w1 where "m w = (Inr x, w1)" and "k x w1 = (Inr y, w')"
  using assms by (auto simp: io_bind_Inr)

lemma lib_call_InrE:
  assumes "lib_call env c w = (Inr u, w1)"
  obtains "fs w1 = fs_effect c (fs w)" and "calls w1 = calls w @ [c]"
  using assms by (auto simp: lib_call_Inr)

lemma dict_get_InrE:
  assumes "dict_get d k w = (Inr v, w1)"
  obtains "d k = Some v" and "w1 = w"
  using assms by (auto simp: dict_get_Inr)

lemma io_lift_InrE:
  assumes "io_lift r w = (Inr v, w1)"
  obtains "r = Inr v" and "w1 = w"
  using assms by (auto simp: io_lift_eq)

lemma io_return_InrE:
  assumes "io_return x w = (Inr v, w1)"
  obtains "v = x" and "w1 = w"
  using assms by (auto simp: io_return_eq)

lemma Let_runE:
  assumes "Let x f w = r"
  obtains v where "v = x" and "f v w = r"
  using assms by (simp add: Let_def)

lemma if_runE:
  assumes "(if b then m1 else m2) w = r"
  obtains "b" and "m1 w = r" | "\<not> b" and "m2 w = r"
  using assms by (cases b) simp_all

lemmas run_elims =
  io_bind_InrE lib_call_InrE dict_get_InrE io_lift_InrE io_return_InrE Let_runE if_runE

lemma prepare_Inr:
  assumes "prepare env FLAGS a w = (Inr L, w')"
  shows "prepared env FLAGS a L \<and> calls w' = calls w @ prepare_calls FLAGS L \<and> fs w' = fs w"
  using assms
  unfolding prepare_def set_config_def
  apply (elim run_elims)
   apply (simp_all add: prepared_def prepare_calls_def the_optimizer_def tfds_data_Some)
  done

lemma evaluate_branch_Inr:
  assumes "evaluate_branch env FLAGS L w = (Inr u, w')"
  shows "\<exists>steps. int_true_div (get_train_length (task FLAGS)) (batch_size FLAGS) = Inr steps
           \<and> calls w' = calls w @ evaluate_calls L steps \<and> fs w' = fs w"
  using assms unfolding evaluate_branch_def
  apply (elim run_elims)
  apply (simp add: evaluate_calls_def)
  done

lemma fit_branch_Inr:
  assumes "fit_branch env FLAGS L w = (Inr u, w')"
  shows "batch_size FLAGS \<noteq> 0 \<and> calls w' = calls w @ fit_calls FLAGS L
     \<and> fs w' = insert (model_path L @ ''config.json'')
                 (insert (model_path L @ ''tf_model.h5'') (insert (model_path L) (fs w)))"
  using assms unfolding fit_branch_def
  apply (elim run_elims)
  apply (simp add: fit_calls_def floor_div_def split: if_splits)
  done

lemma locals_no_dash: "\<forall>(name, v) \<in> set (locals L). \<not> startswith_dash name"
  by (auto simp: locals_def bound_var_def startswith_dash_def split: option.splits)

lemma print_local_vars_Inr:
  assumes "print_local_vars env vs w = (Inr u, w')"
    and "\<forall>(name, v) \<in> set vs. \<not> startswith_dash name"
  shows "calls w' = calls w @ map (\<lambda>(name, v). Print_var name v) vs \<and> fs w' = fs w"
  using assms
proof (induction vs arbitrary: w)
  case Nil
  then show ?case by (simp add: io_return_eq)
next
  case (Cons nv vs)
  obtain name v where nv: "nv = (name, v)" by (cases nv)
  from Cons.prems(2) nv have nd: "\<not> startswith_dash name"
    and rest: "\<forall>(name, v) \<in> set vs. \<not> startswith_dash name" by auto
  from Cons.prems(1) nv nd obtain w1 where
    w1: "fs w1 = fs_effect (Print_var name v) (fs w)" "calls w1 = calls w @ [Print_var name v]"
    and run: "print_local_vars env vs w1 = (Inr u, w')"
    by (auto elim!: io_bind_InrE lib_call_InrE)
  from Cons.IH [OF run rest] w1 nv show ?case by simp
qed

lemma skip_branch_Inr:
  assumes "skip_branch env L w = (Inr u, w')"
  shows "calls w' = calls w @ skip_calls L \<and> fs w' = fs w"
proof -
  from assms obtain w1 where
    w1: "fs w1 = fs_effect (Print (skip_message (model_path L))) (fs w)"
      "calls w1 = calls w @ [Print (skip_message (model_path L))]"
    and run: "print_local_vars env (locals L) w1 = (Inr u, w')"
    unfolding skip_branch_def by (auto elim!: io_bind_InrE lib_call_InrE)
  from print_local_vars_Inr [OF run locals_no_dash] w1 show ?thesis
    by (simp add: skip_calls_def)
qed

text \<open>The four ways a run of \<^verbatim>\<open>train\<close> can go.\<close>

lemma train_cases:
  assumes "train env FLAGS a w = (r, w')"
  obtains e where "r = Inl e" and "prepare env FLAGS a w = (Inl e, w')"
  | L w1 where "prepare env FLAGS a w = (Inr L, w1)" and "evaluate FLAGS"
      and "evaluate_branch env FLAGS L w1 = (r, w')"
  | L w1 where "prepare env FLAGS a w = (Inr L, w1)" and "\<not> evaluate FLAGS"
      and "model_path L @ ''tf_model.h5'' \<in> fs w1" and "\<not> force_train FLAGS"
      and "skip_branch env L w1 = (r, w')"
  | L w1 where "prepare env FLAGS a w = (Inr L, w1)" and "\<not> evaluate FLAGS"
      and "\<not> (model_path L @ ''tf_model.h5'' \<in> fs w1 \<and> \<not> force_train FLAGS)"
      and "fit_branch env FLAGS L w1 = (r, w')"
proof (cases "prepare env FLAGS a w")
  case (Pair r1 w1)
  show ?thesis
  proof (cases r1)
    case (Inl e)
    with Pair assms have "r = Inl e" "w' = w1" by (simp_all add: train_def io_bind_def)
    with Pair Inl that(1) show ?thesis by simp
  next
    case (Inr L)
    with Pair assms that(2-4) show ?thesis
      by (auto simp: train_def io_bind_def path_exists_def split: if_splits)
  qed
qed

text \<open>A run of \<^verbatim>\<open>train\<close> that returns took one of the three branches.\<close>

lemma train_Inr:
  assumes "train env FLAGS a w = (Inr u, w')"
  obtains L steps where "prepared env FLAGS a L" and "evaluate FLAGS"
      and "int_true_div (get_train_length (task FLAGS)) (batch_size FLAGS) = Inr steps"
      and "calls w' = calls w @ prepare_calls FLAGS L @ evaluate_calls L steps"
      and "fs w' = fs w"
  | L where "prepared env FLAGS a L" and "\<not> evaluate FLAGS"
      and "model_path L @ ''tf_model.h5'' \<in> fs w" and "\<not> force_train FLAGS"
      and "calls w' = calls w @ prepare_calls FLAGS L @ skip_calls L"
      and "fs w' = fs w"
  | L where "prepared env FLAGS a L" and "\<not> evaluate FLAGS"
      and "\<not> (model_path L @ ''tf_model.h5'' \<in> fs w \<and> \<not> force_train FLAGS)"
      and "batch_size FLAGS \<noteq> 0"
      and "calls w' = calls w @ prepare_calls FLAGS L @ fit_calls FLAGS L"
      and "fs w' = insert (model_path L @ ''config.json'')
                     (insert (model_path L @ ''tf_model.h5'') (insert (model_path L) (fs w)))"
  using assms
proof (cases rule: train_cases)
  case (1 e)
  then show ?thesis by simp
next
  case (2 L w1)
  from prepare_Inr [OF 2(1)] evaluate_branch_Inr [OF 2(3)] 2(2) that(1) show ?thesis
    by auto
next
  case (3 L w1)
  from prepare_Inr [OF 3(1)] skip_branch_Inr [OF 3(5)] 3(2-4) that(2) show ?thesis
    by auto
next
  case (4 L w1)
  from prepare_Inr [OF 4(1)] fit_branch_Inr [OF 4(4)] 4(2,3) that(3) [of L] show ?thesis
    by auto
qed

lemma train_Inr_prefix:
  assumes "train env FLAGS a w = (Inr u, w')"
  shows "\<exists>L rest. prepared env FLAGS a L \<and> calls w' = calls w @ prepare_calls FLAGS L @ rest"
  using assms by (elim train_Inr) blast+

lemma set_config_Inr:
  assumes "set_config env FLAGS w = (Inr u, w1)"
  shows "calls w1 = calls w @ [Set_up_environment, Set_jit (use_xla FLAGS),
           Set_experimental_options [(''auto_mixed_precision'', use_amp FLAGS)]]"
  using assms unfolding set_config_def
  apply (elim run_elims)
  apply simp
  done

lemma prepare_calls_config:
  "Set_jit (use_xla FLAGS) \<in> set (prepare_calls FLAGS L)"
  "Set_experimental_options [(''auto_mixed_precision'', use_amp FLAGS)]
     \<in> set (prepare_calls FLAGS L)"
  "Compile (model L) (opt L) (loss L) [metric L] \<in> set (prepare_calls FLAGS L)"
  "use_amp FLAGS \<Longrightarrow> Construct (PyOptimizer (opt L)) \<in> set (prepare_calls FLAGS L)"
  by (simp_all add: prepare_calls_def)


lemma checkpoint_path:
  "prepared env FLAGS a L \<Longrightarrow>
     model_path L @ ''tf_model.h5'' = ''./'' @ get_tfds_task (task FLAGS) @ ''/tf_model.h5''"
  by (simp add: prepared_def)

lemma saved_paths_append: "saved_paths (xs @ ys) = saved_paths xs @ saved_paths ys"
  by (induction xs rule: saved_paths.induct) simp_all

lemma printed_names_append: "printed_names (xs @ ys) = printed_names xs @ printed_names ys"
  by (induction xs rule: printed_names.induct) simp_all

lemma saved_paths_prepare_calls: "saved_paths (prepare_calls FLAGS L) = []"
  by (simp add: prepare_calls_def)

lemma printed_names_prepare_calls: "printed_names (prepare_calls FLAGS L) = []"
  by (simp add: prepare_calls_def)

lemma printed_names_print_vars:
  "printed_names (map (\<lambda>(name, v). Print_var name v) vs) = map fst vs"
  by (induction vs) auto

subsection \<open>Every call of a run, returning or not\<close>

lemma quiet_fs_effect: "quiet c \<Longrightarrow> fs_effect c files = files"
  by (cases c) simp_all

lemma onlyD:
  assumes "only P m" and "m w = (r, w')"
  obtains new where "calls w' = calls w @ new" and "list_all P new"
    and "list_all quiet new \<Longrightarrow> fs w' = fs w"
  using assms unfolding only_def by blast

lemma only_return: "only P (io_return x)"
  by (simp add: only_def io_return_def)

lemma only_raise: "only P (io_raise e)"
  by (simp add: only_def io_raise_def)

lemma only_lift: "only P (io_lift x)"
  by (simp add: only_def io_lift_def)

lemma only_path_exists: "only P (path_exists p)"
  by (simp add: only_def path_exists_def)

lemma only_dict_get: "only P (dict_get d k)"
  by (simp add: only_def dict_get_def io_return_def io_raise_def split: option.splits)

lemma only_call: "P c \<Longrightarrow> only P (lib_call env c)"
  by (auto simp: only_def lib_call_def quiet_fs_effect split: option.splits)

lemma only_bind:
  assumes m: "only P m" and k: "\<And>x. only P (k x)"
  shows "only P (io_bind m k)"
  unfolding only_def
proof (intro allI impI)
  fix w r w'
  assume run: "io_bind m k w = (r, w')"
  obtain r1 w1 where m1: "m w = (r1, w1)" by (cases "m w")
  from onlyD [OF m m1] obtain n1 where
    n1: "calls w1 = calls w @ n1" "list_all P n1" "list_all quiet n1 \<Longrightarrow> fs w1 = fs w"
    by blast
  show "\<exists>new. calls w' = calls w @ new \<and> list_all P new
          \<and> (list_all quiet new \<longrightarrow> fs w' = fs w)"
  proof (cases r1)
    case (Inl e)
    with run m1 have "w' = w1" by (simp add: io_bind_def)
    with n1 show ?thesis by blast
  next
    case (Inr x)
    with run m1 have "k x w1 = (r, w')" by (simp add: io_bind_def)
    from onlyD [OF k this] obtain n2 where
      n2: "calls w' = calls w1 @ n2" "list_all P n2" "list_all quiet n2 \<Longrightarrow> fs w' = fs w1"
      by blast
    from n1 n2 have "calls w' = calls w @ (n1 @ n2)" "list_all P (n1 @ n2)"
      "list_all quiet (n1 @ n2) \<longrightarrow> fs w' = fs w"
      by simp_all
    then show ?thesis by blast
  qed
qed

text \<open>Binds whose first part is known keep what it returned.\<close>

lemma only_bind_dict:
  assumes "\<And>v. d k = Some v \<Longrightarrow> only P (f v)"
  shows "only P (io_bind (dict_get d k) f)"
proof (cases "d k")
  case None
  then show ?thesis
    by (simp add: only_def io_bind_def dict_get_def io_raise_def)
next
  case (Some v)
  from assms [OF this] Some show ?thesis
    by (simp add: only_def io_bind_def dict_get_def io_return_def)
qed

lemma only_bind_lift:
  assumes "\<And>x. r = Inr x \<Longrightarrow> only P (f x)"
  shows "only P (io_bind (io_lift r) f)"
proof (cases r)
  case (Inl e)
  then show ?thesis
    by (simp add: only_def io_bind_def io_lift_def)
next
  case (Inr x)
  from assms [OF this] Inr show ?thesis
    by (simp add: only_def io_bind_def io_lift_def)
qed

lemma io_bind_assoc: "io_bind (io_bind m f) k = io_bind m (\<lambda>x. io_bind (f x) k)"
  by (rule ext) (simp add: io_bind_def split: prod.splits sum.splits)

lemma io_bind_return: "io_bind (io_return x) k = k x"
  by (rule ext) (simp add: io_bind_def io_return_def)

lemma only_bind_assoc:
  assumes "only P (io_bind m (\<lambda>x. io_bind (f x) k))"
  shows "only P (io_bind (io_bind m f) k)"
  using assms by (simp add: io_bind_assoc)

lemma only_bind_return:
  assumes "only P (k x)"
  shows "only P (io_bind (io_return x) k)"
  using assms by (simp add: io_bind_return)

lemma only_bind_if:
  assumes "b \<Longrightarrow> only P (io_bind m1 k)" and "\<not> b \<Longrightarrow> only P (io_bind m2 k)"
  shows "only P (io_bind (if b then m1 else m2) k)"
  using assms by simp

lemma only_bind_Let:
  assumes "\<And>v. v = x \<Longrightarrow> only P (io_bind (f v) k)"
  shows "only P (io_bind (Let x f) k)"
  using assms by (simp add: Let_def)

lemma only_if:
  assumes "b \<Longrightarrow> only P m1" and "\<not> b \<Longrightarrow> only P m2"
  shows "only P (if b then m1 else m2)"
  using assms by simp

lemma only_Let:
  assumes "\<And>v. v = x \<Longrightarrow> only P (f v)"
  shows "only P (Let x f)"
  using assms by (simp add: Let_def)

lemma only_print_local_vars:
  assumes "\<And>n v. P (Print_var n v)"
  shows "only P (print_local_vars env vs)"
proof (induction vs)
  case Nil
  show ?case by (simp add: only_return)
next
  case (Cons nv vs)
  obtain n v where nv: "nv = (n, v)" by (cases nv)
  show ?case
    unfolding nv print_local_vars.simps
    by (intro only_bind only_if only_call only_return assms Cons.IH)
qed

lemmas only_rules =
  only_bind_dict only_bind_lift only_bind_assoc only_bind_return only_bind_if only_bind_Let
  only_bind only_Let only_if only_call
  only_return only_raise only_lift only_path_exists only_dict_get

lemma prepare_only: "only (prep_ok env FLAGS) (prepare env FLAGS a)"
  unfolding prepare_def set_config_def
  apply (intro only_rules)
                      apply (simp_all add: the_optimizer_def slice_weights_Inr)
  done

lemma train_only: "only (call_ok env FLAGS) (train env FLAGS a)"
  unfolding train_def prepare_def set_config_def evaluate_branch_def skip_branch_def fit_branch_def
  apply (intro only_rules only_print_local_vars)
                      apply (simp_all add: call_ok_def the_optimizer_def slice_weights_Inr)
  done

lemma train_calls_ok:
  assumes "train env FLAGS a (start files) = (r, w')"
  shows "\<forall>c \<in> set (calls w'). call_ok env FLAGS c"
proof -
  from onlyD [OF train_only assms] obtain new where
    "calls w' = calls (start files) @ new" "list_all (call_ok env FLAGS) new"
    by blast
  then show ?thesis
    by (simp add: start_def list_all_iff)
qed

lemma prep_ok_kind:
  assumes "prep_ok env FLAGS c"
  shows "quiet c \<and> \<not> is_fit c \<and> \<not> is_evaluate c \<and> \<not> is_makedirs c
     \<and> \<not> is_save_pretrained c \<and> printed_names [c] = [] \<and> saved_paths [c] = []"
  using assms by (cases c) simp_all

lemma branch_ok_evaluate_kind:
  assumes "branch_ok FLAGS c" and "evaluate FLAGS"
  shows "quiet c \<and> \<not> is_fit c \<and> \<not> is_makedirs c \<and> \<not> is_save_pretrained c"
  using assms by (cases c) simp_all

lemma call_ok_evaluate_kind:
  assumes "call_ok env FLAGS c" and "evaluate FLAGS"
  shows "quiet c \<and> \<not> is_fit c \<and> \<not> is_makedirs c \<and> \<not> is_save_pretrained c"
  using assms prep_ok_kind [of env FLAGS c] branch_ok_evaluate_kind [of FLAGS c]
  by (auto simp: call_ok_def)

lemma prepare_calls_kind:
  "\<forall>c \<in> set (prepare_calls FLAGS L).
     quiet c \<and> \<not> is_fit c \<and> \<not> is_evaluate c \<and> \<not> is_makedirs c \<and> \<not> is_save_pretrained c"
  by (simp add: prepare_calls_def)

lemma evaluate_branch_unknown_task:
  assumes "get_train_length (task FLAGS) = None"
  shows "only (\<lambda>c. \<not> is_evaluate c) (evaluate_branch env FLAGS L)"
  unfolding evaluate_branch_def
  apply (intro only_rules)
         apply (simp_all add: assms int_true_div_def)
  done

lemma unknown_task_calls:
  assumes run: "train env FLAGS a (start files) = (r, w')"
    and ev: "evaluate FLAGS" and none: "get_train_length (task FLAGS) = None"
  shows "\<forall>c \<in> set (calls w'). \<not> is_evaluate c"
  using run
proof (cases rule: train_cases)
  case (1 e)
  from onlyD [OF prepare_only 1(2)] obtain new where
    "calls w' = calls (start files) @ new" "list_all (prep_ok env FLAGS) new"
    by blast
  then show ?thesis
    by (auto simp: start_def list_all_iff dest: prep_ok_kind)
next
  case (2 L w1)
  from prepare_Inr [OF 2(1)] have w1: "calls w1 = prepare_calls FLAGS L"
    by (simp add: start_def)
  from onlyD [OF evaluate_branch_unknown_task [OF none] 2(3)] obtain new where
    "calls w' = calls w1 @ new" "list_all (\<lambda>c. \<not> is_evaluate c) new"
    by blast
  with w1 prepare_calls_kind [of FLAGS L] show ?thesis
    by (auto simp: list_all_iff)
next
  case (3 L w1)
  with ev show ?thesis by simp
next
  case (4 L w1)
  with ev show ?thesis by simp
qed

lemma only_filter:
  assumes "only P m" and "m w = (r, w')" and "\<And>c. P c \<Longrightarrow> \<not> Q c"
  shows "filter Q (calls w') = filter Q (calls w)"
proof -
  from onlyD [OF assms(1,2)] obtain new where
    new: "calls w' = calls w @ new" "list_all P new" by blast
  from new(2) assms(3) have "filter Q new = []"
    by (auto simp: list_all_iff filter_empty_conv)
  with new(1) show ?thesis by simp
qed

lemma skip_branch_only:
  "only (\<lambda>c. quiet c \<and> \<not> is_fit c \<and> \<not> is_evaluate c \<and> \<not> is_makedirs c
               \<and> \<not> is_save_pretrained c)
     (skip_branch env L)"
  unfolding skip_branch_def
  by (intro only_rules only_print_local_vars) simp_all

lemma lib_call_calls: "lib_call env c w = (r, w') \<Longrightarrow> calls w' = calls w @ [c]"
  by (auto simp: lib_call_def split: option.splits)

lemma io_bind_cases:
  assumes "io_bind m k w = (r, w')"
  obtains e where "m w = (Inl e, w')" and "r = Inl e"
  | x w1 where "m w = (Inr x, w1)" and "k x w1 = (r, w')"
  using assms by (auto simp: io_bind_def split: prod.splits sum.splits)

lemma evaluate_branch_counts:
  assumes "evaluate_branch env FLAGS L w = (r, w')"
  shows "length (filter is_evaluate (calls w')) \<le> length (filter is_evaluate (calls w)) + 2
     \<and> filter is_fit (calls w') = filter is_fit (calls w)"
  using assms unfolding evaluate_branch_def
  by (elim io_bind_cases) (auto simp: io_lift_eq dest!: lib_call_calls)

lemma fit_branch_counts:
  assumes "fit_branch env FLAGS L w = (r, w')"
  shows "length (filter is_fit (calls w')) \<le> length (filter is_fit (calls w)) + 1
     \<and> filter is_evaluate (calls w') = filter is_evaluate (calls w)"
  using assms unfolding fit_branch_def
  by (elim io_bind_cases) (auto simp: io_lift_eq dest!: lib_call_calls)

lemma evaluate_branch_evaluates:
  assumes "evaluate_branch env FLAGS L w = (r, w')"
  shows "filter is_evaluate (calls w') = filter is_evaluate (calls w)
     \<or> (\<exists>steps. int_true_div (get_train_length (task FLAGS)) (batch_size FLAGS) = Inr steps
           \<and> (filter is_evaluate (calls w')
                 = filter is_evaluate (calls w)
                   @ [Evaluate (model L) (train_dataset L) 2 (Some steps)]
              \<or> filter is_evaluate (calls w')
                 = filter is_evaluate (calls w)
                   @ [Evaluate (model L) (train_dataset L) 2 (Some steps),
                      Evaluate (model L) (valid_dataset L) 2 None]))"
  using assms unfolding evaluate_branch_def
  by (elim io_bind_cases) (auto simp: io_lift_eq dest!: lib_call_calls)

lemma fit_branch_fits:
  assumes "fit_branch env FLAGS L w = (r, w')"
  shows "filter is_fit (calls w') = filter is_fit (calls w)
     \<or> (batch_size FLAGS \<noteq> 0
         \<and> filter is_fit (calls w')
             = filter is_fit (calls w)
               @ [Fit (model L) (train_dataset L) (epochs FLAGS)
                    (int (train_examples L) div batch_size FLAGS)
                    (valid_dataset L)
                    (int (valid_examples L) div (batch_size FLAGS * 2))])"
  using assms unfolding fit_branch_def
  by (elim io_bind_cases)
    (auto simp: io_lift_eq floor_div_def split: if_splits dest!: lib_call_calls)

lemma prepare_counts:
  assumes "prepare env FLAGS a w = (r, w')"
  shows "filter is_fit (calls w') = filter is_fit (calls w)
     \<and> filter is_evaluate (calls w') = filter is_evaluate (calls w)"
  using only_filter [OF prepare_only assms, of is_fit]
    only_filter [OF prepare_only assms, of is_evaluate] prep_ok_kind
  by blast

lemma skip_branch_counts:
  assumes "skip_branch env L w = (r, w')"
  shows "filter is_fit (calls w') = filter is_fit (calls w)
     \<and> filter is_evaluate (calls w') = filter is_evaluate (calls w)"
  using only_filter [OF skip_branch_only assms, of is_fit]
    only_filter [OF skip_branch_only assms, of is_evaluate]
  by blast

subsection \<open>Exceptions are not caught\<close>

lemma clean_snoc: "clean env (h @ [c]) \<longleftrightarrow> clean env h \<and> raises env h c = None"
proof
  assume c: "clean env (h @ [c])"
  have "clean env h"
    unfolding clean_def
  proof (intro allI impI)
    fix k assume k: "k < length h"
    with c have "raises env (take k (h @ [c])) ((h @ [c]) ! k) = None"
      by (simp add: clean_def)
    with k show "raises env (take k h) (h ! k) = None" by (simp add: nth_append)
  qed
  moreover have "length h < length (h @ [c])" by simp
  with c have "raises env (take (length h) (h @ [c])) ((h @ [c]) ! length h) = None"
    unfolding clean_def by blast
  then have "raises env h c = None" by simp
  ultimately show "clean env h \<and> raises env h c = None" ..
next
  assume a: "clean env h \<and> raises env h c = None"
  show "clean env (h @ [c])"
    unfolding clean_def
  proof (intro allI impI)
    fix k assume "k < length (h @ [c])"
    then consider "k < length h" | "k = length h" by fastforce
    then show "raises env (take k (h @ [c])) ((h @ [c]) ! k) = None"
    proof cases
      case 1
      with a show ?thesis by (simp add: clean_def nth_append)
    next
      case 2
      with a show ?thesis by simp
    qed
  qed
qed

lemma propagatesD:
  assumes "propagates env own m" and "m w = (r, w')" and "clean env (calls w)"
  shows "case r of
           Inr x \<Rightarrow> clean env (calls w')
         | Inl e \<Rightarrow> (clean env (calls w') \<and> e \<in> own)
                   \<or> (\<exists>h c. calls w' = h @ [c] \<and> clean env h \<and> raises env h c = Some e)"
  using assms unfolding propagates_def by blast

lemma propagates_return: "propagates env own (io_return x)"
  by (simp add: propagates_def io_return_def)

lemma propagates_raise: "e \<in> own \<Longrightarrow> propagates env own (io_raise e)"
  by (simp add: propagates_def io_raise_def)

lemma propagates_lift: "(\<And>e. r = Inl e \<Longrightarrow> e \<in> own) \<Longrightarrow> propagates env own (io_lift r)"
  by (auto simp: propagates_def io_lift_def split: sum.splits)

lemma propagates_path_exists: "propagates env own (path_exists p)"
  by (simp add: propagates_def path_exists_def)

lemma propagates_dict_get:
  "(d k = None \<Longrightarrow> KeyError k \<in> own) \<Longrightarrow> propagates env own (dict_get d k)"
  by (auto simp: propagates_def dict_get_def io_return_def io_raise_def split: option.splits)

lemma propagates_call: "propagates env own (lib_call env c)"
  by (auto simp: propagates_def lib_call_def clean_snoc split: option.splits)

lemma propagates_bind:
  assumes m: "propagates env own m" and k: "\<And>x. propagates env own (k x)"
  shows "propagates env own (io_bind m k)"
  unfolding propagates_def
proof (intro allI impI)
  fix w r w'
  assume run: "io_bind m k w = (r, w')" and cl: "clean env (calls w)"
  obtain r1 w1 where m1: "m w = (r1, w1)" by (cases "m w")
  show "case r of
          Inr x \<Rightarrow> clean env (calls w')
        | Inl e \<Rightarrow> (clean env (calls w') \<and> e \<in> own)
                  \<or> (\<exists>h c. calls w' = h @ [c] \<and> clean env h \<and> raises env h c = Some e)"
  proof (cases r1)
    case (Inl e)
    with run m1 have "r = Inl e" "w' = w1" by (simp_all add: io_bind_def)
    with propagatesD [OF m m1 cl] Inl show ?thesis by simp
  next
    case (Inr x)
    with run m1 have kx: "k x w1 = (r, w')" by (simp add: io_bind_def)
    from propagatesD [OF m m1 cl] Inr have "clean env (calls w1)" by simp
    from propagatesD [OF k kx this] show ?thesis .
  qed
qed

lemma propagates_if:
  assumes "b \<Longrightarrow> propagates env own m1" and "\<not> b \<Longrightarrow> propagates env own m2"
  shows "propagates env own (if b then m1 else m2)"
  using assms by simp

lemma propagates_Let:
  assumes "\<And>v. v = x \<Longrightarrow> propagates env own (f v)"
  shows "propagates env own (Let x f)"
  using assms by (simp add: Let_def)

lemma propagates_print_local_vars: "propagates env own (print_local_vars env vs)"
proof (induction vs)
  case Nil
  show ?case by (simp add: propagates_return)
next
  case (Cons nv vs)
  obtain n v where nv: "nv = (n, v)" by (cases nv)
  show ?case
    unfolding nv print_local_vars.simps
    by (intro propagates_bind propagates_if propagates_call propagates_return Cons.IH)
qed

lemmas propagates_rules =
  propagates_bind propagates_Let propagates_if propagates_call propagates_return
  propagates_raise propagates_lift propagates_path_exists propagates_dict_get
  propagates_print_local_vars

lemma train_propagates: "propagates env (own_exceptions env FLAGS) (train env FLAGS a)"
  unfolding train_def prepare_def set_config_def evaluate_branch_def skip_branch_def fit_branch_def
  apply (intro propagates_rules)
          apply (auto simp: own_exceptions_def slice_weights_not_Inl int_true_div_def floor_div_def
      tfds_data_def split: option.splits if_splits)
  done



subsection \<open>Runs in the example environment\<close>

lemma example_fit_run:
  "fst (train example_env default_FLAGS PyNone (start {})) = Inr ()"
  by (simp add: train_def prepare_def example_env_def default_FLAGS_def start_def io_bind_def
      io_return_def io_raise_def io_lift_def lib_call_def dict_get_def set_config_def Let_def
      get_tfds_task_def tfds_data_def slice_weights_def loop_body_def list_get_def getitem_def
      path_exists_def fit_branch_def floor_div_def)

lemma example_evaluate_run:
  "fst (train example_env (default_FLAGS\<lparr>evaluate := True\<rparr>) PyNone (start files)) = Inr ()"
  by (simp add: train_def prepare_def example_env_def default_FLAGS_def start_def io_bind_def
      io_return_def io_raise_def io_lift_def lib_call_def dict_get_def set_config_def Let_def
      get_tfds_task_def tfds_data_def slice_weights_def loop_body_def list_get_def getitem_def
      evaluate_branch_def int_true_div_def get_train_length_def)

lemma example_amp_run:
  "fst (train example_env (default_FLAGS\<lparr>use_xla := True, use_amp := True\<rparr>) PyNone (start {}))
     = Inr ()"
  by (simp add: train_def prepare_def example_env_def default_FLAGS_def start_def io_bind_def
      io_return_def io_raise_def io_lift_def lib_call_def dict_get_def set_config_def Let_def
      get_tfds_task_def tfds_data_def slice_weights_def loop_body_def list_get_def getitem_def
      path_exists_def fit_branch_def floor_div_def)


lemma example_skip_run:
  "fst (train example_env default_FLAGS PyNone (start {''./sst2/tf_model.h5''})) = Inr ()
   \<and> printed_names (calls (snd (train example_env default_FLAGS PyNone
                                   (start {''./sst2/tf_model.h5''})))) =
       [''argv'', ''num_labels'', ''tokenizer'', ''data'', ''info'', ''train_examples'',
        ''valid_examples'', ''train_dataset'', ''valid_dataset'', ''large_config'',
        ''large_model'', ''config'', ''model'', ''_'', ''weight_list'', ''i'',
        ''large_weight'', ''slice_indices'', ''s'', ''sliced_large_weight'', ''opt'',
        ''loss'', ''metric'', ''model_path'']"
  by (simp add: train_def prepare_def example_env_def default_FLAGS_def start_def io_bind_def
      io_return_def io_raise_def io_lift_def lib_call_def dict_get_def set_config_def Let_def
      get_tfds_task_def tfds_data_def slice_weights_def loop_body_def list_get_def getitem_def
      path_exists_def skip_branch_def locals_def bound_var_def startswith_dash_def)

lemma example_unknown_task_run:
  "raises example_env h c = None
   \<and> glue_processors example_env ''mrpc'' \<noteq> None
   \<and> splits example_env (''glue/'' @ get_tfds_task ''mrpc'') ''train'' \<noteq> None
   \<and> splits example_env (''glue/'' @ get_tfds_task ''mrpc'') ''validation'' \<noteq> None"
  by (simp add: example_env_def get_tfds_task_def)


section \<open>The claims\<close>

text \<open>
  Claim C1. The slicing loop never raises and yields, for each weight and in the same
  order, the weight with every dimension of size 768 cut to 144, every other dimension
  whole, and the values unchanged at their indices. In every
  run of \<^verbatim>\<open>train\<close>, the weights handed to \<^verbatim>\<open>set_weights\<close> are set on layer 0 of the
  smaller model (the one configured with \<^verbatim>\<open>dim=144\<close>) and are, in the order of the
  weights of layer 0 of the pretrained model, those weights with every dimension of
  size 768 cut to 144, every other dimension whole, and the values unchanged at their
  indices; a run that returns has made that call.
\<close>

theorem weights_transplanted:
  "(\<exists>v. slice_weights ws0 = Inr v
        \<and> length (weight_list v) = length ws0
        \<and> (\<forall>i<length ws0.
              get_shape (weight_list v ! i)
                = map (\<lambda>d. if d = 768 then 144 else d) (get_shape (ws0 ! i))
              \<and> value_at (weight_list v ! i) = value_at (ws0 ! i)))
   \<and> (train env FLAGS a (start files) = (r, w') \<longrightarrow>
       (\<forall>m k xs. Set_weights m k xs \<in> set (calls w') \<longrightarrow>
          (\<exists>labels ws.
              glue_processors env (task FLAGS) = Some labels
            \<and> ws = layer_weights env
                     (Model_from_pretrained ''distilbert-base-uncased''
                        (DistilBertConfig_from_pretrained ''distilbert-base-uncased''
                           (length labels) None))
                     0
            \<and> m = Model_init (DistilBertConfig_from_pretrained ''distilbert-base-uncased''
                                (length labels) (Some 144))
            \<and> k = 0
            \<and> length xs = length ws
            \<and> (\<forall>i<length ws.
                  get_shape (xs ! i) = map (\<lambda>d. if d = 768 then 144 else d) (get_shape (ws ! i))
                  \<and> value_at (xs ! i) = value_at (ws ! i))))
     \<and> (r = Inr () \<longrightarrow> (\<exists>m xs. Set_weights m 0 xs \<in> set (calls w'))))"
proof (intro conjI impI allI)
  from slice_weights_eq [of ws0]
  show "\<exists>v. slice_weights ws0 = Inr v
        \<and> length (weight_list v) = length ws0
        \<and> (\<forall>i<length ws0.
              get_shape (weight_list v ! i)
                = map (\<lambda>d. if d = 768 then 144 else d) (get_shape (ws0 ! i))
              \<and> value_at (weight_list v ! i) = value_at (ws0 ! i))"
    by (auto simp: sliced_weight_def sliced_dim_def)
next
  fix m k xs
  assume run: "train env FLAGS a (start files) = (r, w')"
    and "Set_weights m k xs \<in> set (calls w')"
  with train_calls_ok [OF run] have "prep_ok env FLAGS (Set_weights m k xs)"
    by (auto simp: call_ok_def)
  then show "\<exists>labels ws.
              glue_processors env (task FLAGS) = Some labels
            \<and> ws = layer_weights env
                     (Model_from_pretrained ''distilbert-base-uncased''
                        (DistilBertConfig_from_pretrained ''distilbert-base-uncased''
                           (length labels) None))
                     0
            \<and> m = Model_init (DistilBertConfig_from_pretrained ''distilbert-base-uncased''
                                (length labels) (Some 144))
            \<and> k = 0
            \<and> length xs = length ws
            \<and> (\<forall>i<length ws.
                  get_shape (xs ! i) = map (\<lambda>d. if d = 768 then 144 else d) (get_shape (ws ! i))
                  \<and> value_at (xs ! i) = value_at (ws ! i))"
    by (auto simp: sliced_weight_def sliced_dim_def)
next
  assume run: "train env FLAGS a (start files) = (r, w')" and "r = Inr ()"
  with train_Inr_prefix [of env FLAGS a "start files" "()" w']
  obtain L rest where "calls w' = calls (start files) @ prepare_calls FLAGS L @ rest"
    by auto
  then have "Set_weights (model L) 0 (weight_list (loop L)) \<in> set (calls w')"
    by (simp add: prepare_calls_def)
  then show "\<exists>m xs. Set_weights m 0 xs \<in> set (calls w')"
    by blast
qed

theorem weights_transplanted_witness:
  "fst (train example_env default_FLAGS PyNone (start {})) = Inr ()
   \<and> (\<exists>m xs. Set_weights m 0 xs \<in> set (calls (snd (train example_env default_FLAGS PyNone (start {}))))
         \<and> length xs = 2
         \<and> get_shape (xs ! 0) = [144, 3072]
         \<and> get_shape (xs ! 1) = [3072])"
proof -
  let ?r = "fst (train example_env default_FLAGS PyNone (start {}))"
  let ?w = "snd (train example_env default_FLAGS PyNone (start {}))"
  note inst = weights_transplanted [of "[]" example_env default_FLAGS PyNone "{}" ?r ?w]
  have run: "train example_env default_FLAGS PyNone (start {}) = (?r, ?w)" by simp
  from inst run example_fit_run obtain m xs where
    mem: "Set_weights m 0 xs \<in> set (calls ?w)" by auto
  from inst run mem have "length xs = 2 \<and> get_shape (xs ! 0) = [144, 3072]
      \<and> get_shape (xs ! 1) = [3072]"
    by (auto simp: example_env_def default_FLAGS_def)
  with mem example_fit_run show ?thesis by blast
qed

text \<open>
  Claim C2, amended. With the evaluate flag unset, \<^verbatim>\<open>force_train\<close> unset and the
  checkpoint file \<^verbatim>\<open>tf_model.h5\<close> of the output directory present, no run of \<^verbatim>\<open>train\<close>
  issues a \<^verbatim>\<open>fit\<close>, \<^verbatim>\<open>makedirs\<close> or \<^verbatim>\<open>save_pretrained\<close> call and the filesystem is left as it
  was; a run that returns has, after the calls of lines 60-124, printed the message
  that training is skipped and then one line for each local variable of \<^verbatim>\<open>train\<close> bound
  at that point, with its name and value. The names printed are those of \<open>locals\<close>: the
  local variables, not the flags.
\<close>

theorem training_skipped_when_checkpoint_exists:
  "\<not> evaluate FLAGS \<and> \<not> force_train FLAGS
   \<and> ''./'' @ get_tfds_task (task FLAGS) @ ''/tf_model.h5'' \<in> files
   \<and> train env FLAGS a (start files) = (r, w') \<longrightarrow>
     (\<forall>c \<in> set (calls w'). \<not> is_fit c \<and> \<not> is_makedirs c \<and> \<not> is_save_pretrained c)
   \<and> fs w' = files
   \<and> (r = Inr () \<longrightarrow>
        (\<exists>L. prepared env FLAGS a L
           \<and> calls w' = prepare_calls FLAGS L
                @ Print (skip_message (''./'' @ get_tfds_task (task FLAGS) @ ''/''))
                # map (\<lambda>(name, v). Print_var name v) (locals L)
           \<and> printed_names (calls w') = map fst (locals L)))"
proof (intro impI, elim conjE)
  assume ne: "\<not> evaluate FLAGS" and nf: "\<not> force_train FLAGS"
    and ckpt: "''./'' @ get_tfds_task (task FLAGS) @ ''/tf_model.h5'' \<in> files"
    and run: "train env FLAGS a (start files) = (r, w')"
  have quietly: "(\<forall>c \<in> set (calls w'). \<not> is_fit c \<and> \<not> is_makedirs c \<and> \<not> is_save_pretrained c)
      \<and> fs w' = files"
    using run
  proof (cases rule: train_cases)
    case (1 e)
    from onlyD [OF prepare_only 1(2)] obtain new where
      new: "calls w' = calls (start files) @ new" "list_all (prep_ok env FLAGS) new"
        "list_all quiet new \<Longrightarrow> fs w' = fs (start files)"
      by blast
    from new(2) have kinds: "\<forall>c \<in> set new. quiet c \<and> \<not> is_fit c \<and> \<not> is_makedirs c
        \<and> \<not> is_save_pretrained c"
      by (auto simp: list_all_iff dest: prep_ok_kind)
    then have "list_all quiet new" by (simp add: list_all_iff)
    from new(3) [OF this] new(1) kinds show ?thesis by (simp add: start_def)
  next
    case (2 L w1)
    with ne show ?thesis by simp
  next
    case (3 L w1)
    from prepare_Inr [OF 3(1)] have w1: "calls w1 = prepare_calls FLAGS L" "fs w1 = files"
      by (simp_all add: start_def)
    from onlyD [OF skip_branch_only 3(5)] obtain new where
      new: "calls w' = calls w1 @ new"
        "list_all (\<lambda>c. quiet c \<and> \<not> is_fit c \<and> \<not> is_evaluate c \<and> \<not> is_makedirs c
               \<and> \<not> is_save_pretrained c) new"
        "list_all quiet new \<Longrightarrow> fs w' = fs w1"
      by blast
    from new(2) have "list_all quiet new" by (simp add: list_all_iff)
    from new(3) [OF this] new(1,2) w1 prepare_calls_kind [of FLAGS L] show ?thesis
      by (auto simp: list_all_iff)
  next
    case (4 L w1)
    from prepare_Inr [OF 4(1)] have "prepared env FLAGS a L" "fs w1 = files"
      by (simp_all add: start_def)
    with 4(3) nf ckpt checkpoint_path [of env FLAGS a L] show ?thesis by simp
  qed
  have printed: "\<exists>L. prepared env FLAGS a L
           \<and> calls w' = prepare_calls FLAGS L
                @ Print (skip_message (''./'' @ get_tfds_task (task FLAGS) @ ''/''))
                # map (\<lambda>(name, v). Print_var name v) (locals L)
           \<and> printed_names (calls w') = map fst (locals L)" if "r = Inr ()"
  proof -
    from run that have "train env FLAGS a (start files) = (Inr (), w')" by simp
    then show ?thesis
    proof (cases rule: train_Inr)
      case (1 L steps)
      with ne show ?thesis by simp
    next
      case (2 L)
      from 2(1) have path: "model_path L = ''./'' @ get_tfds_task (task FLAGS) @ ''/''"
        by (simp add: prepared_def)
      from 2(5) have cs: "calls w' = prepare_calls FLAGS L
                @ Print (skip_message (''./'' @ get_tfds_task (task FLAGS) @ ''/''))
                # map (\<lambda>(name, v). Print_var name v) (locals L)"
        by (simp add: start_def skip_calls_def path)
      then have "printed_names (calls w') = map fst (locals L)"
        by (simp add: printed_names_append printed_names_prepare_calls printed_names_print_vars)
      with 2(1) cs show ?thesis by blast
    next
      case (3 L)
      with nf ckpt checkpoint_path [OF 3(1)] show ?thesis by (simp add: start_def)
    qed
  qed
  from quietly printed
  show "(\<forall>c \<in> set (calls w'). \<not> is_fit c \<and> \<not> is_makedirs c \<and> \<not> is_save_pretrained c)
   \<and> fs w' = files
   \<and> (r = Inr () \<longrightarrow>
        (\<exists>L. prepared env FLAGS a L
           \<and> calls w' = prepare_calls FLAGS L
                @ Print (skip_message (''./'' @ get_tfds_task (task FLAGS) @ ''/''))
                # map (\<lambda>(name, v). Print_var name v) (locals L)
           \<and> printed_names (calls w') = map fst (locals L)))"
    by blast
qed

theorem training_skipped_when_checkpoint_exists_witness:
  "\<not> evaluate default_FLAGS \<and> \<not> force_train default_FLAGS
   \<and> fst (train example_env default_FLAGS PyNone (start {''./sst2/tf_model.h5''})) = Inr ()
   \<and> fs (snd (train example_env default_FLAGS PyNone (start {''./sst2/tf_model.h5''})))
       = {''./sst2/tf_model.h5''}
   \<and> filter is_fit (calls (snd (train example_env default_FLAGS PyNone
                                  (start {''./sst2/tf_model.h5''})))) = []"
proof -
  let ?files = "{''./sst2/tf_model.h5''}"
  let ?r = "fst (train example_env default_FLAGS PyNone (start ?files))"
  let ?w = "snd (train example_env default_FLAGS PyNone (start ?files))"
  have flags: "\<not> evaluate default_FLAGS" "\<not> force_train default_FLAGS"
    by (simp_all add: default_FLAGS_def)
  have pre: "\<not> evaluate default_FLAGS \<and> \<not> force_train default_FLAGS
     \<and> ''./'' @ get_tfds_task (task default_FLAGS) @ ''/tf_model.h5'' \<in> ?files
     \<and> train example_env default_FLAGS PyNone (start ?files) = (?r, ?w)"
    by (simp add: default_FLAGS_def get_tfds_task_def)
  from training_skipped_when_checkpoint_exists
    [of default_FLAGS ?files example_env PyNone ?r ?w, THEN mp, OF pre]
  have "(\<forall>c \<in> set (calls ?w). \<not> is_fit c \<and> \<not> is_makedirs c \<and> \<not> is_save_pretrained c)
      \<and> fs ?w = ?files"
    by blast
  then have "filter is_fit (calls ?w) = [] \<and> fs ?w = ?files"
    by (simp add: filter_empty_conv)
  with flags example_skip_run show ?thesis by blast
qed

text \<open>
  Claim C2 as stated fails twice. What the skipping branch prints are the local
  variables of \<^verbatim>\<open>train\<close>, none of which is a flag; and with the evaluate flag set, an
  existing checkpoint and \<^verbatim>\<open>force_train\<close> unset the script prints no variable at all: the
  test of the evaluate flag comes first, so the checkpoint test is not the only control
  decision.
\<close>

theorem prints_flag_values_counterexample:
  "printed_names (calls (snd (train example_env default_FLAGS PyNone
                               (start {''./sst2/tf_model.h5''})))) =
       [''argv'', ''num_labels'', ''tokenizer'', ''data'', ''info'', ''train_examples'',
        ''valid_examples'', ''train_dataset'', ''valid_dataset'', ''large_config'',
        ''large_model'', ''config'', ''model'', ''_'', ''weight_list'', ''i'',
        ''large_weight'', ''slice_indices'', ''s'', ''sliced_large_weight'', ''opt'',
        ''loss'', ''metric'', ''model_path'']
   \<and> set (map fst flag_definitions)
       \<inter> set (printed_names (calls (snd (train example_env default_FLAGS PyNone
                                            (start {''./sst2/tf_model.h5''}))))) = {}
   \<and> fst (train example_env (default_FLAGS\<lparr>evaluate := True\<rparr>) PyNone
            (start {''./sst2/tf_model.h5''})) = Inr ()
   \<and> printed_names (calls (snd (train example_env (default_FLAGS\<lparr>evaluate := True\<rparr>) PyNone
                                   (start {''./sst2/tf_model.h5''})))) = []"
proof -
  have "printed_names (calls (snd (train example_env (default_FLAGS\<lparr>evaluate := True\<rparr>) PyNone
                                   (start {''./sst2/tf_model.h5''})))) = []"
    by (simp add: train_def prepare_def example_env_def default_FLAGS_def start_def io_bind_def
      io_return_def io_raise_def io_lift_def lib_call_def dict_get_def set_config_def Let_def
      get_tfds_task_def tfds_data_def slice_weights_def loop_body_def list_get_def getitem_def
      evaluate_branch_def int_true_div_def get_train_length_def)
  with example_skip_run example_evaluate_run [of "{''./sst2/tf_model.h5''}"] show ?thesis
    by (simp add: flag_definitions_def)
qed

text \<open>
  Claim C3, amended. When training completes (the evaluate flag unset, training not
  skipped, the run returning), the model that is saved is the model that was trained:
  the smaller model (\<^verbatim>\<open>dim=144\<close>) constructed on line 90, which received the sliced
  weights and was compiled on lines 107 and 124. The calls of the run are those of lines
  60-124 followed by \<^verbatim>\<open>fit\<close>, \<^verbatim>\<open>makedirs\<close> and \<^verbatim>\<open>save_pretrained\<close>, the first and the last on
  that model; the save is the last call and the only save of the run, into the directory
  \<^verbatim>\<open>./\<close>, \<^verbatim>\<open>_get_tfds_task(task)\<close>, \<^verbatim>\<open>/\<close>, and the weights file exists there. That directory
  carries the task name given on the command line for every task except \<^verbatim>\<open>sst-2\<close> and
  \<^verbatim>\<open>sts-b\<close>, for which it is \<^verbatim>\<open>./sst2/\<close> and \<^verbatim>\<open>./stsb/\<close>.
\<close>

theorem trained_model_saved_under_tfds_name:
  "\<not> evaluate FLAGS
   \<and> \<not> (''./'' @ get_tfds_task (task FLAGS) @ ''/tf_model.h5'' \<in> files \<and> \<not> force_train FLAGS)
   \<and> train env FLAGS a (start files) = (Inr (), w') \<longrightarrow>
     saved_paths (calls w') = [''./'' @ get_tfds_task (task FLAGS) @ ''/'']
     \<and> (\<exists>labels L.
           glue_processors env (task FLAGS) = Some labels
         \<and> prepared env FLAGS a L
         \<and> model L =
             Model_init (DistilBertConfig_from_pretrained ''distilbert-base-uncased''
               (length labels) (Some 144))
         \<and> calls w' = prepare_calls FLAGS L @ fit_calls FLAGS L
         \<and> calls w' =
             prepare_calls FLAGS L
             @ [Fit (model L) (train_dataset L) (epochs FLAGS)
                  (int (train_examples L) div batch_size FLAGS)
                  (valid_dataset L)
                  (int (valid_examples L) div (batch_size FLAGS * 2)),
                Makedirs (''./'' @ get_tfds_task (task FLAGS) @ ''/'') True,
                Save_pretrained (model L) (''./'' @ get_tfds_task (task FLAGS) @ ''/'')]
         \<and> last (calls w') = Save_pretrained (model L) (''./'' @ get_tfds_task (task FLAGS) @ ''/''))
     \<and> ''./'' @ get_tfds_task (task FLAGS) @ ''/tf_model.h5'' \<in> fs w'
     \<and> (task FLAGS \<noteq> ''sst-2'' \<and> task FLAGS \<noteq> ''sts-b'' \<longrightarrow>
           saved_paths (calls w') = [''./'' @ task FLAGS @ ''/''])"
proof (intro impI, elim conjE)
  assume ne: "\<not> evaluate FLAGS"
    and nskip: "\<not> (''./'' @ get_tfds_task (task FLAGS) @ ''/tf_model.h5'' \<in> files
        \<and> \<not> force_train FLAGS)"
    and run: "train env FLAGS a (start files) = (Inr (), w')"
  from run show "saved_paths (calls w') = [''./'' @ get_tfds_task (task FLAGS) @ ''/'']
        \<and> (\<exists>labels L.
              glue_processors env (task FLAGS) = Some labels
            \<and> prepared env FLAGS a L
            \<and> model L =
                Model_init (DistilBertConfig_from_pretrained ''distilbert-base-uncased''
                  (length labels) (Some 144))
            \<and> calls w' = prepare_calls FLAGS L @ fit_calls FLAGS L
            \<and> calls w' =
                prepare_calls FLAGS L
                @ [Fit (model L) (train_dataset L) (epochs FLAGS)
                     (int (train_examples L) div batch_size FLAGS)
                     (valid_dataset L)
                     (int (valid_examples L) div (batch_size FLAGS * 2)),
                   Makedirs (''./'' @ get_tfds_task (task FLAGS) @ ''/'') True,
                   Save_pretrained (model L) (''./'' @ get_tfds_task (task FLAGS) @ ''/'')]
            \<and> last (calls w') = Save_pretrained (model L) (''./'' @ get_tfds_task (task FLAGS) @ ''/''))
        \<and> ''./'' @ get_tfds_task (task FLAGS) @ ''/tf_model.h5'' \<in> fs w'
        \<and> (task FLAGS \<noteq> ''sst-2'' \<and> task FLAGS \<noteq> ''sts-b'' \<longrightarrow>
              saved_paths (calls w') = [''./'' @ task FLAGS @ ''/''])"
  proof (cases rule: train_Inr)
    case (1 L steps)
    with ne show ?thesis by simp
  next
    case (2 L)
    with nskip checkpoint_path [OF 2(1)] show ?thesis by (simp add: start_def)
  next
    case (3 L)
    from 3(1) have path: "model_path L = ''./'' @ get_tfds_task (task FLAGS) @ ''/''"
      by (simp add: prepared_def)
    from 3(1) obtain labels where labels: "glue_processors env (task FLAGS) = Some labels"
      and small: "model L =
          Model_init (DistilBertConfig_from_pretrained ''distilbert-base-uncased''
            (length labels) (Some 144))"
      by (auto simp: prepared_def)
    from 3(5) have all_calls: "calls w' = prepare_calls FLAGS L @ fit_calls FLAGS L"
      by (simp add: start_def)
    then have spelled: "calls w' =
        prepare_calls FLAGS L
        @ [Fit (model L) (train_dataset L) (epochs FLAGS)
             (int (train_examples L) div batch_size FLAGS)
             (valid_dataset L)
             (int (valid_examples L) div (batch_size FLAGS * 2)),
           Makedirs (''./'' @ get_tfds_task (task FLAGS) @ ''/'') True,
           Save_pretrained (model L) (''./'' @ get_tfds_task (task FLAGS) @ ''/'')]"
      by (simp add: fit_calls_def path)
    from all_calls
    have saved: "saved_paths (calls w') = [''./'' @ get_tfds_task (task FLAGS) @ ''/'']"
      and final: "last (calls w') = Save_pretrained (model L) (''./'' @ get_tfds_task (task FLAGS) @ ''/'')"
      by (simp_all add: saved_paths_append saved_paths_prepare_calls fit_calls_def path)
    from 3(6) path have written: "''./'' @ get_tfds_task (task FLAGS) @ ''/tf_model.h5'' \<in> fs w'"
      by simp
    from labels 3(1) small all_calls spelled final
    have ex: "(\<exists>labels L.
                  glue_processors env (task FLAGS) = Some labels
                \<and> prepared env FLAGS a L
                \<and> model L =
                    Model_init (DistilBertConfig_from_pretrained ''distilbert-base-uncased''
                      (length labels) (Some 144))
                \<and> calls w' = prepare_calls FLAGS L @ fit_calls FLAGS L
                \<and> calls w' =
                    prepare_calls FLAGS L
                    @ [Fit (model L) (train_dataset L) (epochs FLAGS)
                         (int (train_examples L) div batch_size FLAGS)
                         (valid_dataset L)
                         (int (valid_examples L) div (batch_size FLAGS * 2)),
                       Makedirs (''./'' @ get_tfds_task (task FLAGS) @ ''/'') True,
                       Save_pretrained (model L) (''./'' @ get_tfds_task (task FLAGS) @ ''/'')]
                \<and> last (calls w') = Save_pretrained (model L) (''./'' @ get_tfds_task (task FLAGS) @ ''/''))"
      by (intro exI conjI)
    from saved have same: "task FLAGS \<noteq> ''sst-2'' \<and> task FLAGS \<noteq> ''sts-b'' \<longrightarrow>
         saved_paths (calls w') = [''./'' @ task FLAGS @ ''/'']"
      by (simp add: get_tfds_task_def)
    from saved ex written same show ?thesis by (intro conjI)
  qed
qed

theorem trained_model_saved_under_tfds_name_witness:
  "\<not> evaluate (default_FLAGS\<lparr>task := ''mrpc''\<rparr>)
   \<and> fst (train example_env (default_FLAGS\<lparr>task := ''mrpc''\<rparr>) PyNone (start {})) = Inr ()
   \<and> saved_paths (calls (snd (train example_env (default_FLAGS\<lparr>task := ''mrpc''\<rparr>) PyNone (start {}))))
       = [''./mrpc/'']
   \<and> last (calls (snd (train example_env (default_FLAGS\<lparr>task := ''mrpc''\<rparr>) PyNone (start {}))))
       = Save_pretrained
           (Model_init (DistilBertConfig_from_pretrained ''distilbert-base-uncased'' 2 (Some 144)))
           ''./mrpc/''
   \<and> ''./mrpc/tf_model.h5''
       \<in> fs (snd (train example_env (default_FLAGS\<lparr>task := ''mrpc''\<rparr>) PyNone (start {})))"
proof -
  let ?F = "default_FLAGS\<lparr>task := ''mrpc''\<rparr>"
  let ?w = "snd (train example_env ?F PyNone (start {}))"
  have returns: "fst (train example_env ?F PyNone (start {})) = Inr ()"
    by (simp add: train_def prepare_def example_env_def default_FLAGS_def start_def io_bind_def
      io_return_def io_raise_def io_lift_def lib_call_def dict_get_def set_config_def Let_def
      get_tfds_task_def tfds_data_def slice_weights_def loop_body_def list_get_def getitem_def
      path_exists_def fit_branch_def floor_div_def)
  then have run: "train example_env ?F PyNone (start {}) = (Inr (), ?w)"
    by (metis prod.collapse)
  have ne: "\<not> evaluate ?F" by (simp add: default_FLAGS_def)
  have pre: "\<not> evaluate ?F
   \<and> \<not> (''./'' @ get_tfds_task (task ?F) @ ''/tf_model.h5'' \<in> {} \<and> \<not> force_train ?F)
   \<and> train example_env ?F PyNone (start {}) = (Inr (), ?w)"
    using ne run by simp
  note inst = trained_model_saved_under_tfds_name
      [of ?F "{}" example_env PyNone ?w, THEN mp, OF pre]
  from inst have "saved_paths (calls ?w) = [''./'' @ get_tfds_task (task ?F) @ ''/'']"
    by (rule conjunct1)
  then have saved: "saved_paths (calls ?w) = [''./mrpc/'']"
    by (simp add: get_tfds_task_def)
  from inst [THEN conjunct2, THEN conjunct1]
  have final: "last (calls ?w)
       = Save_pretrained
           (Model_init (DistilBertConfig_from_pretrained ''distilbert-base-uncased'' 2 (Some 144)))
           ''./mrpc/''"
  proof (elim exE conjE)
    fix labels L
    assume "glue_processors example_env (task ?F) = Some labels"
      and "model L = Model_init (DistilBertConfig_from_pretrained ''distilbert-base-uncased''
                              (length labels) (Some 144))"
      and "last (calls ?w) = Save_pretrained (model L) (''./'' @ get_tfds_task (task ?F) @ ''/'')"
    then show ?thesis
      by (auto simp: example_env_def get_tfds_task_def)
  qed
  from inst [THEN conjunct2, THEN conjunct2, THEN conjunct1]
  have written: "''./mrpc/tf_model.h5'' \<in> fs ?w"
    by (simp add: get_tfds_task_def)
  from ne returns saved final written show ?thesis by (intro conjI)
qed

text \<open>
  Claim C3 as stated fails for the default task: the task name given on the command
  line is \<^verbatim>\<open>sst-2\<close> and the directory saved to is \<^verbatim>\<open>./sst2/\<close>.
\<close>

theorem saved_directory_counterexample:
  "task default_FLAGS = ''sst-2''
   \<and> fst (train example_env default_FLAGS PyNone (start {})) = Inr ()
   \<and> saved_paths (calls (snd (train example_env default_FLAGS PyNone (start {})))) = [''./sst2/'']"
  by (simp add: train_def prepare_def example_env_def default_FLAGS_def start_def io_bind_def
      io_return_def io_raise_def io_lift_def lib_call_def dict_get_def set_config_def Let_def
      get_tfds_task_def tfds_data_def slice_weights_def loop_body_def list_get_def getitem_def
      path_exists_def fit_branch_def floor_div_def)

text \<open>
  Claim C4. \<^verbatim>\<open>_get_train_length\<close> is 67349 for \<^verbatim>\<open>sst-2\<close>, 5749 for \<^verbatim>\<open>sts-b\<close> and \<^verbatim>\<open>None\<close> for
  every other task, for which the step count \<^verbatim>\<open>int(None / batch_size)\<close> is a TypeError.
  With the evaluate flag set and any other task, no run of \<^verbatim>\<open>train\<close> returns and none
  reaches an evaluate call; unless a library call raised or the task or a split was
  missing, the run ends in that TypeError. With the evaluate flag set and one of the two
  tasks, a run that returns had a non-zero batch size and evaluated the training
  dataset for the train length divided by the batch size, truncated.
\<close>

theorem evaluate_needs_train_length:
  "get_train_length ''sst-2'' = Some 67349
   \<and> get_train_length ''sts-b'' = Some 5749
   \<and> (t \<noteq> ''sst-2'' \<and> t \<noteq> ''sts-b'' \<longrightarrow>
        get_train_length t = None \<and> int_true_div (get_train_length t) b = Inl TypeError)
   \<and> (evaluate FLAGS \<and> task FLAGS \<noteq> ''sst-2'' \<and> task FLAGS \<noteq> ''sts-b''
        \<and> train env FLAGS a (start files) = (r, w') \<longrightarrow>
          r \<noteq> Inr ()
        \<and> (\<forall>c \<in> set (calls w'). \<not> is_evaluate c)
        \<and> (r = Inl TypeError
           \<or> (calls w' \<noteq> [] \<and> raises env (butlast (calls w')) (last (calls w')) \<noteq> None)
           \<or> glue_processors env (task FLAGS) = None
           \<or> splits env (''glue/'' @ get_tfds_task (task FLAGS)) ''train'' = None
           \<or> splits env (''glue/'' @ get_tfds_task (task FLAGS)) ''validation'' = None))
   \<and> (evaluate FLAGS \<and> (task FLAGS = ''sst-2'' \<or> task FLAGS = ''sts-b'')
        \<and> train env FLAGS a (start files) = (Inr (), w') \<longrightarrow>
          batch_size FLAGS \<noteq> 0
        \<and> (\<exists>m d len. get_train_length (task FLAGS) = Some len
              \<and> Evaluate m d 2 (Some (trunc_div len (batch_size FLAGS))) \<in> set (calls w')))"
proof (intro conjI impI; (elim conjE)?)
  show "get_train_length ''sst-2'' = Some 67349" by (simp add: get_train_length_def)
  show "get_train_length ''sts-b'' = Some 5749" by (simp add: get_train_length_def)
next
  assume "t \<noteq> ''sst-2''" "t \<noteq> ''sts-b''"
  then show "get_train_length t = None" "int_true_div (get_train_length t) b = Inl TypeError"
    by (simp_all add: get_train_length_def int_true_div_def)
next
  assume ev: "evaluate FLAGS" and t: "task FLAGS \<noteq> ''sst-2''" "task FLAGS \<noteq> ''sts-b''"
    and run: "train env FLAGS a (start files) = (r, w')"
  from t have none: "get_train_length (task FLAGS) = None"
    by (simp add: get_train_length_def)
  show notInr: "r \<noteq> Inr ()"
  proof
    assume "r = Inr ()"
    with run have "train env FLAGS a (start files) = (Inr (), w')" by simp
    then show False
    proof (cases rule: train_Inr)
      case (1 L steps)
      with none show ?thesis by (simp add: int_true_div_def)
    next
      case (2 L)
      with ev show ?thesis by simp
    next
      case (3 L)
      with ev show ?thesis by simp
    qed
  qed
  from unknown_task_calls [OF run ev none]
  show "\<forall>c \<in> set (calls w'). \<not> is_evaluate c" .
  have "clean env (calls (start files))" by (simp add: start_def clean_def)
  note post = propagatesD [OF train_propagates run this]
  from notInr obtain e where e: "r = Inl e" by (cases r) auto
  with post have "(clean env (calls w') \<and> e \<in> own_exceptions env FLAGS)
      \<or> (\<exists>h c. calls w' = h @ [c] \<and> clean env h \<and> raises env h c = Some e)"
    by simp
  then show "r = Inl TypeError
           \<or> (calls w' \<noteq> [] \<and> raises env (butlast (calls w')) (last (calls w')) \<noteq> None)
           \<or> glue_processors env (task FLAGS) = None
           \<or> splits env (''glue/'' @ get_tfds_task (task FLAGS)) ''train'' = None
           \<or> splits env (''glue/'' @ get_tfds_task (task FLAGS)) ''validation'' = None"
  proof (elim disjE conjE exE)
    assume "e \<in> own_exceptions env FLAGS"
    with ev none e show ?thesis
      by (auto simp: own_exceptions_def)
  next
    fix h c
    assume "calls w' = h @ [c]" "raises env h c = Some e"
    then show ?thesis by simp
  qed
next
  assume ev: "evaluate FLAGS" and t: "task FLAGS = ''sst-2'' \<or> task FLAGS = ''sts-b''"
    and run: "train env FLAGS a (start files) = (Inr (), w')"
  from run have "batch_size FLAGS \<noteq> 0
        \<and> (\<exists>m d len. get_train_length (task FLAGS) = Some len
              \<and> Evaluate m d 2 (Some (trunc_div len (batch_size FLAGS))) \<in> set (calls w'))"
  proof (cases rule: train_Inr)
    case (1 L steps)
    from 1(3) obtain len where len: "get_train_length (task FLAGS) = Some len"
      and b: "batch_size FLAGS \<noteq> 0" and steps: "steps = trunc_div len (batch_size FLAGS)"
      by (auto simp: int_true_div_def split: option.splits if_splits)
    from 1(4) have "Evaluate (model L) (train_dataset L) 2 (Some steps) \<in> set (calls w')"
      by (simp add: evaluate_calls_def)
    with len b steps show ?thesis by blast
  next
    case (2 L)
    with ev show ?thesis by simp
  next
    case (3 L)
    with ev show ?thesis by simp
  qed
  then show "batch_size FLAGS \<noteq> 0"
    and "\<exists>m d len. get_train_length (task FLAGS) = Some len
              \<and> Evaluate m d 2 (Some (trunc_div len (batch_size FLAGS))) \<in> set (calls w')"
    by blast+
qed

theorem evaluate_needs_train_length_witness:
  "evaluate (default_FLAGS\<lparr>task := ''mrpc'', evaluate := True\<rparr>)
   \<and> task (default_FLAGS\<lparr>task := ''mrpc'', evaluate := True\<rparr>) = ''mrpc''
   \<and> fst (train example_env (default_FLAGS\<lparr>task := ''mrpc'', evaluate := True\<rparr>) PyNone
            (start {})) = Inl TypeError
   \<and> fst (train example_env (default_FLAGS\<lparr>evaluate := True\<rparr>) PyNone (start {})) = Inr ()
   \<and> (\<exists>m d. Evaluate m d 2 (Some 2104)
         \<in> set (calls (snd (train example_env (default_FLAGS\<lparr>evaluate := True\<rparr>) PyNone
                              (start {})))))"
proof -
  let ?F = "default_FLAGS\<lparr>task := ''mrpc'', evaluate := True\<rparr>"
  let ?r = "fst (train example_env ?F PyNone (start {}))"
  let ?w = "snd (train example_env ?F PyNone (start {}))"
  have run: "train example_env ?F PyNone (start {}) = (?r, ?w)" by simp
  have flags: "evaluate ?F" "task ?F = ''mrpc''" by simp_all
  have t: "task ?F \<noteq> ''sst-2''" "task ?F \<noteq> ''sts-b''" by simp_all
  have pre: "evaluate ?F \<and> task ?F \<noteq> ''sst-2'' \<and> task ?F \<noteq> ''sts-b''
      \<and> train example_env ?F PyNone (start {}) = (?r, ?w)"
    using flags(1) t run by (intro conjI)
  note inst = evaluate_needs_train_length [of "''mrpc''" 32 ?F example_env PyNone "{}" ?r ?w]
  note post = inst [THEN conjunct2, THEN conjunct2, THEN conjunct2, THEN conjunct1, THEN mp,
      OF pre]
  from post [THEN conjunct2, THEN conjunct2]
  have "?r = Inl TypeError
      \<or> (calls ?w \<noteq> [] \<and> raises example_env (butlast (calls ?w)) (last (calls ?w)) \<noteq> None)
      \<or> glue_processors example_env (task ?F) = None
      \<or> splits example_env (''glue/'' @ get_tfds_task (task ?F)) ''train'' = None
      \<or> splits example_env (''glue/'' @ get_tfds_task (task ?F)) ''validation'' = None" .
  with example_unknown_task_run [of "butlast (calls ?w)" "last (calls ?w)"]
  have fails: "?r = Inl TypeError"
    unfolding flags(2) by auto
  let ?G = "default_FLAGS\<lparr>evaluate := True\<rparr>"
  let ?v = "snd (train example_env ?G PyNone (start {}))"
  have returns: "fst (train example_env ?G PyNone (start {})) = Inr ()"
    by (rule example_evaluate_run)
  then have run2: "train example_env ?G PyNone (start {}) = (Inr (), ?v)"
    by (metis prod.collapse)
  have pre2: "evaluate ?G \<and> (task ?G = ''sst-2'' \<or> task ?G = ''sts-b'')
      \<and> train example_env ?G PyNone (start {}) = (Inr (), ?v)"
    using run2 by (simp add: default_FLAGS_def)
  note inst2 = evaluate_needs_train_length [of "''mrpc''" 32 ?G example_env PyNone "{}" ?r ?v]
  from inst2 [THEN conjunct2, THEN conjunct2, THEN conjunct2, THEN conjunct2, THEN mp, OF pre2]
  have "\<exists>m d len. get_train_length (task ?G) = Some len
      \<and> Evaluate m d 2 (Some (trunc_div len (batch_size ?G))) \<in> set (calls ?v)"
    by (rule conjunct2)
  then have "\<exists>m d. Evaluate m d 2 (Some 2104) \<in> set (calls ?v)"
    by (auto simp: default_FLAGS_def get_train_length_def trunc_div_def)
  with flags fails returns show ?thesis by blast
qed



text \<open>
  Claim C6, amended. The evaluate flag selects between the two loops. With the flag
  set, no run calls \<^verbatim>\<open>fit\<close>; the \<^verbatim>\<open>evaluate\<close> calls of a run are none, or the one on the
  training dataset, or that one followed by the one on the validation dataset, each on
  the compiled model with \<^verbatim>\<open>verbose=2\<close>; and a run that returns has made exactly these two
  calls, in this order: first on the shuffled, batched and repeated \<^verbatim>\<open>train\<close> split, with
  the step count \<^verbatim>\<open>int(_get_train_length(task) / batch_size)\<close>, then on the batched
  \<^verbatim>\<open>validation\<close> split, with no step count. With the flag unset, no run calls \<^verbatim>\<open>evaluate\<close>;
  the \<^verbatim>\<open>fit\<close> calls of a run are none or the single call of line 148, on the training
  dataset with the validation dataset as validation data; and a run that returns has
  made that single call, unless the checkpoint exists and \<^verbatim>\<open>force_train\<close> is unset, when
  it has made none.
\<close>

theorem fit_and_evaluate_calls:
  "train env FLAGS a (start files) = (r, w') \<longrightarrow>
     (evaluate FLAGS \<longrightarrow>
        length (filter is_fit (calls w')) = 0
      \<and> length (filter is_evaluate (calls w')) \<le> 2
      \<and> (filter is_evaluate (calls w') = []
         \<or> (\<exists>L steps.
               prepared env FLAGS a L
             \<and> int_true_div (get_train_length (task FLAGS)) (batch_size FLAGS) = Inr steps
             \<and> (filter is_evaluate (calls w') = [Evaluate (model L) (train_dataset L) 2 (Some steps)]
                \<or> filter is_evaluate (calls w') =
                     [Evaluate (model L) (train_dataset L) 2 (Some steps),
                      Evaluate (model L) (valid_dataset L) 2 None])))
      \<and> (r = Inr () \<longrightarrow>
           length (filter is_evaluate (calls w')) = 2
         \<and> (\<exists>L steps.
               prepared env FLAGS a L
             \<and> int_true_div (get_train_length (task FLAGS)) (batch_size FLAGS) = Inr steps
             \<and> train_dataset L =
                 Repeat
                   (Batch
                      (Shuffle
                         (Features (Split (''glue/'' @ get_tfds_task (task FLAGS)) ''train'')
                            (DistilBertTokenizer_from_pretrained ''distilbert-base-uncased'')
                            (max_length FLAGS) (task FLAGS))
                         (buffer_size FLAGS))
                      (batch_size FLAGS))
                   (- 1)
             \<and> valid_dataset L =
                 Batch
                   (Features (Split (''glue/'' @ get_tfds_task (task FLAGS)) ''validation'')
                      (DistilBertTokenizer_from_pretrained ''distilbert-base-uncased'')
                      (max_length FLAGS) (task FLAGS))
                   (batch_size FLAGS * 2)
             \<and> filter is_evaluate (calls w') =
                 [Evaluate (model L) (train_dataset L) 2 (Some steps),
                  Evaluate (model L) (valid_dataset L) 2 None])))
     \<and> (\<not> evaluate FLAGS \<longrightarrow>
        length (filter is_evaluate (calls w')) = 0
      \<and> length (filter is_fit (calls w')) \<le> 1
      \<and> (filter is_fit (calls w') = []
         \<or> (\<exists>L.
               prepared env FLAGS a L
             \<and> filter is_fit (calls w') =
                 [Fit (model L) (train_dataset L) (epochs FLAGS)
                    (int (train_examples L) div batch_size FLAGS)
                    (valid_dataset L)
                    (int (valid_examples L) div (batch_size FLAGS * 2))]))
      \<and> (r = Inr () \<longrightarrow>
           length (filter is_fit (calls w'))
             = (if ''./'' @ get_tfds_task (task FLAGS) @ ''/tf_model.h5'' \<in> files \<and> \<not> force_train FLAGS
                then 0 else 1)
         \<and> (\<not> (''./'' @ get_tfds_task (task FLAGS) @ ''/tf_model.h5'' \<in> files \<and> \<not> force_train FLAGS) \<longrightarrow>
              (\<exists>L.
                  prepared env FLAGS a L
                \<and> train_dataset L =
                    Repeat
                      (Batch
                         (Shuffle
                            (Features (Split (''glue/'' @ get_tfds_task (task FLAGS)) ''train'')
                               (DistilBertTokenizer_from_pretrained ''distilbert-base-uncased'')
                               (max_length FLAGS) (task FLAGS))
                            (buffer_size FLAGS))
                         (batch_size FLAGS))
                      (- 1)
                \<and> valid_dataset L =
                    Batch
                      (Features (Split (''glue/'' @ get_tfds_task (task FLAGS)) ''validation'')
                         (DistilBertTokenizer_from_pretrained ''distilbert-base-uncased'')
                         (max_length FLAGS) (task FLAGS))
                      (batch_size FLAGS * 2)
                \<and> filter is_fit (calls w') =
                    [Fit (model L) (train_dataset L) (epochs FLAGS)
                       (int (train_examples L) div batch_size FLAGS)
                       (valid_dataset L)
                       (int (valid_examples L) div (batch_size FLAGS * 2))]))))"
proof
  assume run: "train env FLAGS a (start files) = (r, w')"
  have s0: "filter is_fit (calls (start files)) = []"
    "filter is_evaluate (calls (start files)) = []"
    by (simp_all add: start_def)
  have any_evaluate: "filter is_fit (calls w') = []
    \<and> (filter is_evaluate (calls w') = []
       \<or> (\<exists>L steps.
             prepared env FLAGS a L
           \<and> int_true_div (get_train_length (task FLAGS)) (batch_size FLAGS) = Inr steps
           \<and> (filter is_evaluate (calls w') = [Evaluate (model L) (train_dataset L) 2 (Some steps)]
              \<or> filter is_evaluate (calls w') =
                   [Evaluate (model L) (train_dataset L) 2 (Some steps),
                    Evaluate (model L) (valid_dataset L) 2 None])))"
    if ev: "evaluate FLAGS"
    using run
  proof (cases rule: train_cases)
    case (1 e)
    from prepare_counts [OF 1(2)] s0 show ?thesis by simp
  next
    case (2 L w1)
    from prepare_Inr [OF 2(1)] have L: "prepared env FLAGS a L" by simp
    from prepare_counts [OF 2(1)] s0 have w1: "filter is_fit (calls w1) = []"
      "filter is_evaluate (calls w1) = []" by simp_all
    from evaluate_branch_counts [OF 2(3)] w1 have "filter is_fit (calls w') = []" by simp
    moreover from evaluate_branch_evaluates [OF 2(3)] w1 L
    have "(filter is_evaluate (calls w') = []
           \<or> (\<exists>L steps.
                 prepared env FLAGS a L
               \<and> int_true_div (get_train_length (task FLAGS)) (batch_size FLAGS) = Inr steps
               \<and> (filter is_evaluate (calls w') = [Evaluate (model L) (train_dataset L) 2 (Some steps)]
                  \<or> filter is_evaluate (calls w') =
                       [Evaluate (model L) (train_dataset L) 2 (Some steps),
                        Evaluate (model L) (valid_dataset L) 2 None])))"
      by auto
    ultimately show ?thesis by blast
  next
    case (3 L w1)
    with ev show ?thesis by simp
  next
    case (4 L w1)
    with ev show ?thesis by simp
  qed
  have any_fit: "filter is_evaluate (calls w') = []
    \<and> (filter is_fit (calls w') = []
       \<or> (\<exists>L.
             prepared env FLAGS a L
           \<and> filter is_fit (calls w') =
               [Fit (model L) (train_dataset L) (epochs FLAGS)
                  (int (train_examples L) div batch_size FLAGS)
                  (valid_dataset L)
                  (int (valid_examples L) div (batch_size FLAGS * 2))]))"
    if ne: "\<not> evaluate FLAGS"
    using run
  proof (cases rule: train_cases)
    case (1 e)
    from prepare_counts [OF 1(2)] s0 show ?thesis by simp
  next
    case (2 L w1)
    with ne show ?thesis by simp
  next
    case (3 L w1)
    from prepare_counts [OF 3(1)] skip_branch_counts [OF 3(5)] s0 show ?thesis by simp
  next
    case (4 L w1)
    from prepare_Inr [OF 4(1)] have L: "prepared env FLAGS a L" by simp
    from prepare_counts [OF 4(1)] s0 have w1: "filter is_fit (calls w1) = []"
      "filter is_evaluate (calls w1) = []" by simp_all
    from fit_branch_counts [OF 4(4)] w1 have "filter is_evaluate (calls w') = []" by simp
    moreover from fit_branch_fits [OF 4(4)] w1 L
    have "(filter is_fit (calls w') = []
           \<or> (\<exists>L.
                 prepared env FLAGS a L
               \<and> filter is_fit (calls w') =
                   [Fit (model L) (train_dataset L) (epochs FLAGS)
                      (int (train_examples L) div batch_size FLAGS)
                      (valid_dataset L)
                      (int (valid_examples L) div (batch_size FLAGS * 2))]))"
      by auto
    ultimately show ?thesis by blast
  qed
  have ret_evaluate:
    "(\<exists>L steps.
         prepared env FLAGS a L
       \<and> int_true_div (get_train_length (task FLAGS)) (batch_size FLAGS) = Inr steps
       \<and> train_dataset L =
           Repeat
             (Batch
                (Shuffle
                   (Features (Split (''glue/'' @ get_tfds_task (task FLAGS)) ''train'')
                      (DistilBertTokenizer_from_pretrained ''distilbert-base-uncased'')
                      (max_length FLAGS) (task FLAGS))
                   (buffer_size FLAGS))
                (batch_size FLAGS))
             (- 1)
       \<and> valid_dataset L =
           Batch
             (Features (Split (''glue/'' @ get_tfds_task (task FLAGS)) ''validation'')
                (DistilBertTokenizer_from_pretrained ''distilbert-base-uncased'')
                (max_length FLAGS) (task FLAGS))
             (batch_size FLAGS * 2)
       \<and> filter is_evaluate (calls w') =
           [Evaluate (model L) (train_dataset L) 2 (Some steps),
            Evaluate (model L) (valid_dataset L) 2 None])"
    if "r = Inr ()" and ev: "evaluate FLAGS"
  proof -
    from run that have "train env FLAGS a (start files) = (Inr (), w')" by simp
    then show ?thesis
    proof (cases rule: train_Inr)
      case (1 L steps)
      from prepare_calls_kind [of FLAGS L] have "filter is_evaluate (prepare_calls FLAGS L) = []"
        by (simp add: filter_empty_conv)
      with 1(4) have "filter is_evaluate (calls w') =
          [Evaluate (model L) (train_dataset L) 2 (Some steps),
           Evaluate (model L) (valid_dataset L) 2 None]"
        by (simp add: start_def evaluate_calls_def)
      moreover from 1(1) have "train_dataset L =
          Repeat
            (Batch
               (Shuffle
                  (Features (Split (''glue/'' @ get_tfds_task (task FLAGS)) ''train'')
                     (DistilBertTokenizer_from_pretrained ''distilbert-base-uncased'')
                     (max_length FLAGS) (task FLAGS))
                  (buffer_size FLAGS))
               (batch_size FLAGS))
            (- 1)"
        and "valid_dataset L =
          Batch
            (Features (Split (''glue/'' @ get_tfds_task (task FLAGS)) ''validation'')
               (DistilBertTokenizer_from_pretrained ''distilbert-base-uncased'')
               (max_length FLAGS) (task FLAGS))
            (batch_size FLAGS * 2)"
        by (auto simp: prepared_def)
      ultimately show ?thesis using 1(1,3) by blast
    next
      case (2 L)
      with ev show ?thesis by simp
    next
      case (3 L)
      with ev show ?thesis by simp
    qed
  qed
  have ret_skip: "filter is_fit (calls w') = []"
    if "r = Inr ()" and "\<not> evaluate FLAGS"
      and "''./'' @ get_tfds_task (task FLAGS) @ ''/tf_model.h5'' \<in> files \<and> \<not> force_train FLAGS"
  proof -
    from run that have "train env FLAGS a (start files) = (Inr (), w')" by simp
    then show ?thesis
    proof (cases rule: train_Inr)
      case (1 L steps)
      with that show ?thesis by simp
    next
      case (2 L)
      from prepare_calls_kind [of FLAGS L] have "filter is_fit (prepare_calls FLAGS L) = []"
        by (simp add: filter_empty_conv)
      moreover have "filter is_fit (skip_calls L) = []"
        by (auto simp: skip_calls_def filter_empty_conv)
      ultimately show ?thesis using 2(5) by (simp add: start_def)
    next
      case (3 L)
      with that checkpoint_path [OF 3(1)] show ?thesis by (simp add: start_def)
    qed
  qed
  have ret_fit:
    "(\<exists>L.
         prepared env FLAGS a L
       \<and> train_dataset L =
           Repeat
             (Batch
                (Shuffle
                   (Features (Split (''glue/'' @ get_tfds_task (task FLAGS)) ''train'')
                      (DistilBertTokenizer_from_pretrained ''distilbert-base-uncased'')
                      (max_length FLAGS) (task FLAGS))
                   (buffer_size FLAGS))
                (batch_size FLAGS))
             (- 1)
       \<and> valid_dataset L =
           Batch
             (Features (Split (''glue/'' @ get_tfds_task (task FLAGS)) ''validation'')
                (DistilBertTokenizer_from_pretrained ''distilbert-base-uncased'')
                (max_length FLAGS) (task FLAGS))
             (batch_size FLAGS * 2)
       \<and> filter is_fit (calls w') =
           [Fit (model L) (train_dataset L) (epochs FLAGS)
              (int (train_examples L) div batch_size FLAGS)
              (valid_dataset L)
              (int (valid_examples L) div (batch_size FLAGS * 2))])"
    if "r = Inr ()" and "\<not> evaluate FLAGS"
      and "\<not> (''./'' @ get_tfds_task (task FLAGS) @ ''/tf_model.h5'' \<in> files \<and> \<not> force_train FLAGS)"
  proof -
    from run that have "train env FLAGS a (start files) = (Inr (), w')" by simp
    then show ?thesis
    proof (cases rule: train_Inr)
      case (1 L steps)
      with that show ?thesis by simp
    next
      case (2 L)
      with that checkpoint_path [OF 2(1)] show ?thesis by (simp add: start_def)
    next
      case (3 L)
      from prepare_calls_kind [of FLAGS L] have "filter is_fit (prepare_calls FLAGS L) = []"
        by (simp add: filter_empty_conv)
      with 3(5) have "filter is_fit (calls w') =
          [Fit (model L) (train_dataset L) (epochs FLAGS)
             (int (train_examples L) div batch_size FLAGS)
             (valid_dataset L)
             (int (valid_examples L) div (batch_size FLAGS * 2))]"
        by (simp add: start_def fit_calls_def)
      moreover from 3(1) have "train_dataset L =
          Repeat
            (Batch
               (Shuffle
                  (Features (Split (''glue/'' @ get_tfds_task (task FLAGS)) ''train'')
                     (DistilBertTokenizer_from_pretrained ''distilbert-base-uncased'')
                     (max_length FLAGS) (task FLAGS))
                  (buffer_size FLAGS))
               (batch_size FLAGS))
            (- 1)"
        and "valid_dataset L =
          Batch
            (Features (Split (''glue/'' @ get_tfds_task (task FLAGS)) ''validation'')
               (DistilBertTokenizer_from_pretrained ''distilbert-base-uncased'')
               (max_length FLAGS) (task FLAGS))
            (batch_size FLAGS * 2)"
        by (auto simp: prepared_def)
      ultimately show ?thesis using 3(1) by blast
    qed
  qed
  show "(evaluate FLAGS \<longrightarrow>
           length (filter is_fit (calls w')) = 0
         \<and> length (filter is_evaluate (calls w')) \<le> 2
         \<and> (filter is_evaluate (calls w') = []
            \<or> (\<exists>L steps.
                  prepared env FLAGS a L
                \<and> int_true_div (get_train_length (task FLAGS)) (batch_size FLAGS) = Inr steps
                \<and> (filter is_evaluate (calls w') = [Evaluate (model L) (train_dataset L) 2 (Some steps)]
                   \<or> filter is_evaluate (calls w') =
                        [Evaluate (model L) (train_dataset L) 2 (Some steps),
                         Evaluate (model L) (valid_dataset L) 2 None])))
         \<and> (r = Inr () \<longrightarrow>
              length (filter is_evaluate (calls w')) = 2
            \<and> (\<exists>L steps.
                  prepared env FLAGS a L
                \<and> int_true_div (get_train_length (task FLAGS)) (batch_size FLAGS) = Inr steps
                \<and> train_dataset L =
                    Repeat
                      (Batch
                         (Shuffle
                            (Features (Split (''glue/'' @ get_tfds_task (task FLAGS)) ''train'')
                               (DistilBertTokenizer_from_pretrained ''distilbert-base-uncased'')
                               (max_length FLAGS) (task FLAGS))
                            (buffer_size FLAGS))
                         (batch_size FLAGS))
                      (- 1)
                \<and> valid_dataset L =
                    Batch
                      (Features (Split (''glue/'' @ get_tfds_task (task FLAGS)) ''validation'')
                         (DistilBertTokenizer_from_pretrained ''distilbert-base-uncased'')
                         (max_length FLAGS) (task FLAGS))
                      (batch_size FLAGS * 2)
                \<and> filter is_evaluate (calls w') =
                    [Evaluate (model L) (train_dataset L) 2 (Some steps),
                     Evaluate (model L) (valid_dataset L) 2 None])))
        \<and> (\<not> evaluate FLAGS \<longrightarrow>
           length (filter is_evaluate (calls w')) = 0
         \<and> length (filter is_fit (calls w')) \<le> 1
         \<and> (filter is_fit (calls w') = []
            \<or> (\<exists>L.
                  prepared env FLAGS a L
                \<and> filter is_fit (calls w') =
                    [Fit (model L) (train_dataset L) (epochs FLAGS)
                       (int (train_examples L) div batch_size FLAGS)
                       (valid_dataset L)
                       (int (valid_examples L) div (batch_size FLAGS * 2))]))
         \<and> (r = Inr () \<longrightarrow>
              length (filter is_fit (calls w'))
                = (if ''./'' @ get_tfds_task (task FLAGS) @ ''/tf_model.h5'' \<in> files \<and> \<not> force_train FLAGS
                   then 0 else 1)
            \<and> (\<not> (''./'' @ get_tfds_task (task FLAGS) @ ''/tf_model.h5'' \<in> files \<and> \<not> force_train FLAGS) \<longrightarrow>
                 (\<exists>L.
                     prepared env FLAGS a L
                   \<and> train_dataset L =
                       Repeat
                         (Batch
                            (Shuffle
                               (Features (Split (''glue/'' @ get_tfds_task (task FLAGS)) ''train'')
                                  (DistilBertTokenizer_from_pretrained ''distilbert-base-uncased'')
                                  (max_length FLAGS) (task FLAGS))
                               (buffer_size FLAGS))
                            (batch_size FLAGS))
                         (- 1)
                   \<and> valid_dataset L =
                       Batch
                         (Features (Split (''glue/'' @ get_tfds_task (task FLAGS)) ''validation'')
                            (DistilBertTokenizer_from_pretrained ''distilbert-base-uncased'')
                            (max_length FLAGS) (task FLAGS))
                         (batch_size FLAGS * 2)
                   \<and> filter is_fit (calls w') =
                       [Fit (model L) (train_dataset L) (epochs FLAGS)
                          (int (train_examples L) div batch_size FLAGS)
                          (valid_dataset L)
                          (int (valid_examples L) div (batch_size FLAGS * 2))]))))"
  proof (intro conjI impI)
    assume ev: "evaluate FLAGS"
    from any_evaluate [OF ev] show "length (filter is_fit (calls w')) = 0" by simp
    from any_evaluate [OF ev] show "length (filter is_evaluate (calls w')) \<le> 2" by auto
    from any_evaluate [OF ev]
    show "(filter is_evaluate (calls w') = []
           \<or> (\<exists>L steps.
                 prepared env FLAGS a L
               \<and> int_true_div (get_train_length (task FLAGS)) (batch_size FLAGS) = Inr steps
               \<and> (filter is_evaluate (calls w') = [Evaluate (model L) (train_dataset L) 2 (Some steps)]
                  \<or> filter is_evaluate (calls w') =
                       [Evaluate (model L) (train_dataset L) 2 (Some steps),
                        Evaluate (model L) (valid_dataset L) 2 None])))"
      by (rule conjunct2)
    assume ret: "r = Inr ()"
    from ret_evaluate [OF ret ev] show "length (filter is_evaluate (calls w')) = 2" by auto
    from ret_evaluate [OF ret ev]
    show "(\<exists>L steps.
              prepared env FLAGS a L
            \<and> int_true_div (get_train_length (task FLAGS)) (batch_size FLAGS) = Inr steps
            \<and> train_dataset L =
                Repeat
                  (Batch
                     (Shuffle
                        (Features (Split (''glue/'' @ get_tfds_task (task FLAGS)) ''train'')
                           (DistilBertTokenizer_from_pretrained ''distilbert-base-uncased'')
                           (max_length FLAGS) (task FLAGS))
                        (buffer_size FLAGS))
                     (batch_size FLAGS))
                  (- 1)
            \<and> valid_dataset L =
                Batch
                  (Features (Split (''glue/'' @ get_tfds_task (task FLAGS)) ''validation'')
                     (DistilBertTokenizer_from_pretrained ''distilbert-base-uncased'')
                     (max_length FLAGS) (task FLAGS))
                  (batch_size FLAGS * 2)
            \<and> filter is_evaluate (calls w') =
                [Evaluate (model L) (train_dataset L) 2 (Some steps),
                 Evaluate (model L) (valid_dataset L) 2 None])" .
  next
    assume ne: "\<not> evaluate FLAGS"
    from any_fit [OF ne] show "length (filter is_evaluate (calls w')) = 0" by simp
    from any_fit [OF ne] show "length (filter is_fit (calls w')) \<le> 1" by auto
    from any_fit [OF ne]
    show "(filter is_fit (calls w') = []
           \<or> (\<exists>L.
                 prepared env FLAGS a L
               \<and> filter is_fit (calls w') =
                   [Fit (model L) (train_dataset L) (epochs FLAGS)
                      (int (train_examples L) div batch_size FLAGS)
                      (valid_dataset L)
                      (int (valid_examples L) div (batch_size FLAGS * 2))]))"
      by (rule conjunct2)
    assume ret: "r = Inr ()"
    show "length (filter is_fit (calls w'))
        = (if ''./'' @ get_tfds_task (task FLAGS) @ ''/tf_model.h5'' \<in> files \<and> \<not> force_train FLAGS
           then 0 else 1)"
    proof (cases "''./'' @ get_tfds_task (task FLAGS) @ ''/tf_model.h5'' \<in> files \<and> \<not> force_train FLAGS")
      case True
      from ret_skip [OF ret ne True] True show ?thesis by simp
    next
      case False
      from ret_fit [OF ret ne False] False show ?thesis by auto
    qed
    assume ns: "\<not> (''./'' @ get_tfds_task (task FLAGS) @ ''/tf_model.h5'' \<in> files \<and> \<not> force_train FLAGS)"
    from ret_fit [OF ret ne ns]
    show "(\<exists>L.
              prepared env FLAGS a L
            \<and> train_dataset L =
                Repeat
                  (Batch
                     (Shuffle
                        (Features (Split (''glue/'' @ get_tfds_task (task FLAGS)) ''train'')
                           (DistilBertTokenizer_from_pretrained ''distilbert-base-uncased'')
                           (max_length FLAGS) (task FLAGS))
                        (buffer_size FLAGS))
                     (batch_size FLAGS))
                  (- 1)
            \<and> valid_dataset L =
                Batch
                  (Features (Split (''glue/'' @ get_tfds_task (task FLAGS)) ''validation'')
                     (DistilBertTokenizer_from_pretrained ''distilbert-base-uncased'')
                     (max_length FLAGS) (task FLAGS))
                  (batch_size FLAGS * 2)
            \<and> filter is_fit (calls w') =
                [Fit (model L) (train_dataset L) (epochs FLAGS)
                   (int (train_examples L) div batch_size FLAGS)
                   (valid_dataset L)
                   (int (valid_examples L) div (batch_size FLAGS * 2))])" .
  qed
qed

theorem fit_and_evaluate_calls_witness:
  "evaluate (default_FLAGS\<lparr>evaluate := True\<rparr>)
   \<and> fst (train example_env (default_FLAGS\<lparr>evaluate := True\<rparr>) PyNone (start {})) = Inr ()
   \<and> filter is_fit (calls (snd (train example_env (default_FLAGS\<lparr>evaluate := True\<rparr>) PyNone (start {})))) = []
   \<and> filter is_evaluate (calls (snd (train example_env (default_FLAGS\<lparr>evaluate := True\<rparr>) PyNone (start {})))) =
       [Evaluate
          (Model_init (DistilBertConfig_from_pretrained ''distilbert-base-uncased'' 2 (Some 144)))
          (Repeat
             (Batch
                (Shuffle
                   (Features (Split ''glue/sst2'' ''train'')
                      (DistilBertTokenizer_from_pretrained ''distilbert-base-uncased'')
                      128 ''sst-2'')
                   128)
                32)
             (- 1))
          2 (Some 2104),
        Evaluate
          (Model_init (DistilBertConfig_from_pretrained ''distilbert-base-uncased'' 2 (Some 144)))
          (Batch
             (Features (Split ''glue/sst2'' ''validation'')
                (DistilBertTokenizer_from_pretrained ''distilbert-base-uncased'')
                128 ''sst-2'')
             64)
          2 None]
   \<and> \<not> evaluate default_FLAGS
   \<and> fst (train example_env default_FLAGS PyNone (start {})) = Inr ()
   \<and> filter is_evaluate (calls (snd (train example_env default_FLAGS PyNone (start {})))) = []
   \<and> filter is_fit (calls (snd (train example_env default_FLAGS PyNone (start {})))) =
       [Fit
          (Model_init (DistilBertConfig_from_pretrained ''distilbert-base-uncased'' 2 (Some 144)))
          (Repeat
             (Batch
                (Shuffle
                   (Features (Split ''glue/sst2'' ''train'')
                      (DistilBertTokenizer_from_pretrained ''distilbert-base-uncased'')
                      128 ''sst-2'')
                   128)
                32)
             (- 1))
          3 2104
          (Batch
             (Features (Split ''glue/sst2'' ''validation'')
                (DistilBertTokenizer_from_pretrained ''distilbert-base-uncased'')
                128 ''sst-2'')
             64)
          13]"
proof -
  let ?E = "default_FLAGS\<lparr>evaluate := True\<rparr>"
  let ?re = "fst (train example_env ?E PyNone (start {}))"
  let ?we = "snd (train example_env ?E PyNone (start {}))"
  let ?r = "fst (train example_env default_FLAGS PyNone (start {}))"
  let ?w = "snd (train example_env default_FLAGS PyNone (start {}))"
  have run_e: "train example_env ?E PyNone (start {}) = (?re, ?we)" by simp
  have run: "train example_env default_FLAGS PyNone (start {}) = (?r, ?w)" by simp
  have ev: "evaluate ?E" by simp
  have ne: "\<not> evaluate default_FLAGS" by (simp add: default_FLAGS_def)
  have ret_e: "?re = Inr ()" by (rule example_evaluate_run)
  have ret: "?r = Inr ()" by (rule example_fit_run)
  have nskip: "\<not> (''./'' @ get_tfds_task (task default_FLAGS) @ ''/tf_model.h5'' \<in> {}
      \<and> \<not> force_train default_FLAGS)" by simp
  note in_evaluate = fit_and_evaluate_calls [of example_env ?E PyNone "{}" ?re ?we,
      THEN mp, OF run_e, THEN conjunct1, THEN mp, OF ev]
  note in_training = fit_and_evaluate_calls [of example_env default_FLAGS PyNone "{}" ?r ?w,
      THEN mp, OF run, THEN conjunct2, THEN mp, OF ne]
  from in_evaluate have no_fit: "filter is_fit (calls ?we) = []" by simp
  from in_evaluate [THEN conjunct2, THEN conjunct2, THEN conjunct2, THEN mp, OF ret_e,
      THEN conjunct2]
  have two: "filter is_evaluate (calls ?we) =
       [Evaluate
          (Model_init (DistilBertConfig_from_pretrained ''distilbert-base-uncased'' 2 (Some 144)))
          (Repeat
             (Batch
                (Shuffle
                   (Features (Split ''glue/sst2'' ''train'')
                      (DistilBertTokenizer_from_pretrained ''distilbert-base-uncased'')
                      128 ''sst-2'')
                   128)
                32)
             (- 1))
          2 (Some 2104),
        Evaluate
          (Model_init (DistilBertConfig_from_pretrained ''distilbert-base-uncased'' 2 (Some 144)))
          (Batch
             (Features (Split ''glue/sst2'' ''validation'')
                (DistilBertTokenizer_from_pretrained ''distilbert-base-uncased'')
                128 ''sst-2'')
             64)
          2 None]"
  proof (elim exE conjE)
    fix L steps
    assume "prepared example_env ?E PyNone L"
      and "int_true_div (get_train_length (task ?E)) (batch_size ?E) = Inr steps"
      and "filter is_evaluate (calls ?we)
         = [Evaluate (model L) (train_dataset L) 2 (Some steps),
            Evaluate (model L) (valid_dataset L) 2 None]"
    then show ?thesis
      by (auto simp: prepared_def example_env_def default_FLAGS_def get_tfds_task_def
          int_true_div_def trunc_div_def get_train_length_def)
  qed
  from in_training have no_evaluate: "filter is_evaluate (calls ?w) = []" by simp
  from in_training [THEN conjunct2, THEN conjunct2, THEN conjunct2, THEN mp, OF ret,
      THEN conjunct2, THEN mp, OF nskip]
  have one: "filter is_fit (calls ?w) =
       [Fit
          (Model_init (DistilBertConfig_from_pretrained ''distilbert-base-uncased'' 2 (Some 144)))
          (Repeat
             (Batch
                (Shuffle
                   (Features (Split ''glue/sst2'' ''train'')
                      (DistilBertTokenizer_from_pretrained ''distilbert-base-uncased'')
                      128 ''sst-2'')
                   128)
                32)
             (- 1))
          3 2104
          (Batch
             (Features (Split ''glue/sst2'' ''validation'')
                (DistilBertTokenizer_from_pretrained ''distilbert-base-uncased'')
                128 ''sst-2'')
             64)
          13]"
  proof (elim exE conjE)
    fix L
    assume "prepared example_env default_FLAGS PyNone L"
      and "filter is_fit (calls ?w)
         = [Fit (model L) (train_dataset L) (epochs default_FLAGS)
              (int (train_examples L) div batch_size default_FLAGS)
              (valid_dataset L)
              (int (valid_examples L) div (batch_size default_FLAGS * 2))]"
    then show ?thesis
      by (auto simp: prepared_def example_env_def default_FLAGS_def get_tfds_task_def)
  qed
  from ev ret_e no_fit two ne ret no_evaluate one show ?thesis by (intro conjI)
qed

text \<open>
  Claim C6 as stated (one \<^verbatim>\<open>fit\<close> call and one \<^verbatim>\<open>evaluate\<close> call on any run) fails: with
  the default flags the script calls \<^verbatim>\<open>fit\<close> once and \<^verbatim>\<open>evaluate\<close> never, and with the
  evaluate flag it calls \<^verbatim>\<open>evaluate\<close> twice and \<^verbatim>\<open>fit\<close> never.
\<close>

theorem one_fit_and_one_evaluate_counterexample:
  "length (filter is_fit
     (calls (snd (train example_env default_FLAGS PyNone (start {}))))) = 1
   \<and> length (filter is_evaluate
     (calls (snd (train example_env default_FLAGS PyNone (start {}))))) = 0
   \<and> length (filter is_fit
     (calls (snd (train example_env (default_FLAGS\<lparr>evaluate := True\<rparr>) PyNone (start {}))))) = 0
   \<and> length (filter is_evaluate
     (calls (snd (train example_env (default_FLAGS\<lparr>evaluate := True\<rparr>) PyNone (start {}))))) = 2"
  by (simp add: train_def prepare_def example_env_def default_FLAGS_def start_def io_bind_def
      io_return_def io_raise_def io_lift_def lib_call_def dict_get_def set_config_def Let_def
      get_tfds_task_def tfds_data_def slice_weights_def loop_body_def list_get_def getitem_def
      path_exists_def fit_branch_def floor_div_def evaluate_branch_def int_true_div_def
      get_train_length_def)



text \<open>
  Claim C8. \<^verbatim>\<open>_set_config\<close>, when it returns, has set up the environment, set the JIT
  option to the \<^verbatim>\<open>use_xla\<close> flag and the \<^verbatim>\<open>auto_mixed_precision\<close> option to the \<^verbatim>\<open>use_amp\<close>
  flag, in that order. In every run of \<^verbatim>\<open>train\<close> these two options are set to nothing
  but the flags; a loss-scaling optimizer is built only when \<^verbatim>\<open>use_amp\<close> is set, and then
  around the Adam optimizer with the scale \<^verbatim>\<open>dynamic\<close>; and the model is compiled with the
  wrapped optimizer when \<^verbatim>\<open>use_amp\<close> is set and with the plain Adam optimizer otherwise.
  A run that returns has made these calls.
\<close>

theorem xla_and_amp_forwarded:
  "(set_config env FLAGS w = (Inr (), w1) \<longrightarrow>
      calls w1 = calls w @ [Set_up_environment, Set_jit (use_xla FLAGS),
        Set_experimental_options [(''auto_mixed_precision'', use_amp FLAGS)]])
   \<and> (train env FLAGS a (start files) = (r, w') \<longrightarrow>
        (\<forall>b. Set_jit b \<in> set (calls w') \<longrightarrow> b = use_xla FLAGS)
      \<and> (\<forall>opts. Set_experimental_options opts \<in> set (calls w')
            \<longrightarrow> opts = [(''auto_mixed_precision'', use_amp FLAGS)])
      \<and> (\<forall>inner scale. Construct (PyOptimizer (LossScaleOptimizer inner scale)) \<in> set (calls w')
            \<longrightarrow> use_amp FLAGS \<and> inner = Adam (learning_rate FLAGS) (epsilon FLAGS)
                \<and> scale = ''dynamic'')
      \<and> (\<forall>m opt0 l ms. Compile m opt0 l ms \<in> set (calls w') \<longrightarrow>
            opt0 = (if use_amp FLAGS
                    then LossScaleOptimizer (Adam (learning_rate FLAGS) (epsilon FLAGS)) ''dynamic''
                    else Adam (learning_rate FLAGS) (epsilon FLAGS)))
      \<and> (r = Inr () \<longrightarrow>
            Set_jit (use_xla FLAGS) \<in> set (calls w')
          \<and> Set_experimental_options [(''auto_mixed_precision'', use_amp FLAGS)] \<in> set (calls w')
          \<and> (use_amp FLAGS \<longrightarrow>
                Construct (PyOptimizer
                  (LossScaleOptimizer (Adam (learning_rate FLAGS) (epsilon FLAGS)) ''dynamic''))
                  \<in> set (calls w'))
          \<and> (\<exists>m l ms.
                Compile m
                  (if use_amp FLAGS
                   then LossScaleOptimizer (Adam (learning_rate FLAGS) (epsilon FLAGS)) ''dynamic''
                   else Adam (learning_rate FLAGS) (epsilon FLAGS))
                  l ms \<in> set (calls w'))))"
proof (intro conjI impI)
  assume "set_config env FLAGS w = (Inr (), w1)"
  then show "calls w1 = calls w @ [Set_up_environment, Set_jit (use_xla FLAGS),
        Set_experimental_options [(''auto_mixed_precision'', use_amp FLAGS)]]"
    by (rule set_config_Inr)
next
  assume run: "train env FLAGS a (start files) = (r, w')"
  note ok = train_calls_ok [OF run]
  show "\<forall>b. Set_jit b \<in> set (calls w') \<longrightarrow> b = use_xla FLAGS"
    using ok by (auto simp: call_ok_def)
  show "\<forall>opts. Set_experimental_options opts \<in> set (calls w')
            \<longrightarrow> opts = [(''auto_mixed_precision'', use_amp FLAGS)]"
    using ok by (auto simp: call_ok_def)
  show "\<forall>inner scale. Construct (PyOptimizer (LossScaleOptimizer inner scale)) \<in> set (calls w')
            \<longrightarrow> use_amp FLAGS \<and> inner = Adam (learning_rate FLAGS) (epsilon FLAGS)
                \<and> scale = ''dynamic''"
    using ok by (auto simp: call_ok_def)
  show "\<forall>m opt0 l ms. Compile m opt0 l ms \<in> set (calls w') \<longrightarrow>
            opt0 = (if use_amp FLAGS
                    then LossScaleOptimizer (Adam (learning_rate FLAGS) (epsilon FLAGS)) ''dynamic''
                    else Adam (learning_rate FLAGS) (epsilon FLAGS))"
    using ok by (auto simp: call_ok_def the_optimizer_def)
  assume "r = Inr ()"
  with run train_Inr_prefix [of env FLAGS a "start files" "()" w']
  obtain L rest where L: "prepared env FLAGS a L"
    and cs: "calls w' = calls (start files) @ prepare_calls FLAGS L @ rest"
    by auto
  from L have opt: "opt L = the_optimizer FLAGS" by (simp add: prepared_def)
  from cs have sub: "set (prepare_calls FLAGS L) \<subseteq> set (calls w')" by auto
  from sub prepare_calls_config(1) [of FLAGS L]
  show "Set_jit (use_xla FLAGS) \<in> set (calls w')" by blast
  from sub prepare_calls_config(2) [of FLAGS L]
  show "Set_experimental_options [(''auto_mixed_precision'', use_amp FLAGS)] \<in> set (calls w')"
    by blast
  from sub prepare_calls_config(3) [of L FLAGS] opt
  have "Compile (model L) (the_optimizer FLAGS) (loss L) [metric L] \<in> set (calls w')"
    by auto
  then show "\<exists>m l ms.
          Compile m
            (if use_amp FLAGS
             then LossScaleOptimizer (Adam (learning_rate FLAGS) (epsilon FLAGS)) ''dynamic''
             else Adam (learning_rate FLAGS) (epsilon FLAGS))
            l ms \<in> set (calls w')"
    unfolding the_optimizer_def by blast
  assume amp: "use_amp FLAGS"
  from sub prepare_calls_config(4) [OF amp, of L] opt
  have "Construct (PyOptimizer (the_optimizer FLAGS)) \<in> set (calls w')"
    by auto
  with amp show "Construct (PyOptimizer
          (LossScaleOptimizer (Adam (learning_rate FLAGS) (epsilon FLAGS)) ''dynamic''))
          \<in> set (calls w')"
    by (simp add: the_optimizer_def)
qed

theorem xla_and_amp_forwarded_witness:
  "fst (train example_env (default_FLAGS\<lparr>use_xla := True, use_amp := True\<rparr>) PyNone (start {}))
     = Inr ()
   \<and> Set_jit True
       \<in> set (calls (snd (train example_env (default_FLAGS\<lparr>use_xla := True, use_amp := True\<rparr>)
                             PyNone (start {}))))
   \<and> Set_experimental_options [(''auto_mixed_precision'', True)]
       \<in> set (calls (snd (train example_env (default_FLAGS\<lparr>use_xla := True, use_amp := True\<rparr>)
                             PyNone (start {}))))
   \<and> Construct (PyOptimizer
         (LossScaleOptimizer (Adam (learning_rate default_FLAGS) (epsilon default_FLAGS))
            ''dynamic''))
       \<in> set (calls (snd (train example_env (default_FLAGS\<lparr>use_xla := True, use_amp := True\<rparr>)
                             PyNone (start {}))))"
proof -
  let ?F = "default_FLAGS\<lparr>use_xla := True, use_amp := True\<rparr>"
  let ?r = "fst (train example_env ?F PyNone (start {}))"
  let ?w = "snd (train example_env ?F PyNone (start {}))"
  have run: "train example_env ?F PyNone (start {}) = (?r, ?w)" by simp
  have flags: "use_xla ?F" "use_amp ?F" "learning_rate ?F = learning_rate default_FLAGS"
    "epsilon ?F = epsilon default_FLAGS"
    by simp_all
  from xla_and_amp_forwarded [of example_env ?F "start {}" "start {}" PyNone "{}" ?r ?w]
    run example_amp_run
  have "Set_jit (use_xla ?F) \<in> set (calls ?w)
      \<and> Set_experimental_options [(''auto_mixed_precision'', use_amp ?F)] \<in> set (calls ?w)
      \<and> (use_amp ?F \<longrightarrow>
            Construct (PyOptimizer
              (LossScaleOptimizer (Adam (learning_rate ?F) (epsilon ?F)) ''dynamic''))
              \<in> set (calls ?w))"
    by blast
  with flags example_amp_run show ?thesis by simp
qed

text \<open>
  Claim C9. \<^verbatim>\<open>_get_tfds_task\<close> maps \<^verbatim>\<open>sst-2\<close> to \<^verbatim>\<open>sst2\<close> and \<^verbatim>\<open>sts-b\<close> to \<^verbatim>\<open>stsb\<close> and is
  the identity on every other task name. In every run of \<^verbatim>\<open>train\<close>, returning or
  not, the dataset is loaded under \<^verbatim>\<open>glue/\<close> followed by its result, and the directory
  created and saved to is \<^verbatim>\<open>./\<close>, its result, \<^verbatim>\<open>/\<close>; a run that returns has loaded the
  dataset.
\<close>

theorem tfds_task_translation:
  "get_tfds_task ''sst-2'' = ''sst2''
   \<and> get_tfds_task ''sts-b'' = ''stsb''
   \<and> (t \<noteq> ''sst-2'' \<and> t \<noteq> ''sts-b'' \<longrightarrow> get_tfds_task t = t)
   \<and> (train env FLAGS a (start files) = (r, w') \<longrightarrow>
        (\<forall>name with_info. Tfds_load name with_info \<in> set (calls w')
           \<longrightarrow> name = ''glue/'' @ get_tfds_task (task FLAGS))
      \<and> (\<forall>p exist_ok. Makedirs p exist_ok \<in> set (calls w')
           \<longrightarrow> p = ''./'' @ get_tfds_task (task FLAGS) @ ''/'')
      \<and> (\<forall>m p. Save_pretrained m p \<in> set (calls w')
           \<longrightarrow> p = ''./'' @ get_tfds_task (task FLAGS) @ ''/'')
      \<and> (r = Inr () \<longrightarrow>
            Tfds_load (''glue/'' @ get_tfds_task (task FLAGS)) True \<in> set (calls w')))"
proof (intro conjI impI)
  assume run: "train env FLAGS a (start files) = (r, w')"
  note ok = train_calls_ok [OF run]
  show "\<forall>name with_info. Tfds_load name with_info \<in> set (calls w')
           \<longrightarrow> name = ''glue/'' @ get_tfds_task (task FLAGS)"
    using ok by (auto simp: call_ok_def)
  show "\<forall>p exist_ok. Makedirs p exist_ok \<in> set (calls w')
           \<longrightarrow> p = ''./'' @ get_tfds_task (task FLAGS) @ ''/''"
    using ok by (auto simp: call_ok_def)
  show "\<forall>m p. Save_pretrained m p \<in> set (calls w')
           \<longrightarrow> p = ''./'' @ get_tfds_task (task FLAGS) @ ''/''"
    using ok by (auto simp: call_ok_def)
  assume "r = Inr ()"
  with run train_Inr_prefix [of env FLAGS a "start files" "()" w']
  show "Tfds_load (''glue/'' @ get_tfds_task (task FLAGS)) True \<in> set (calls w')"
    by (auto simp: prepare_calls_def)
qed (simp_all add: get_tfds_task_def)

theorem tfds_task_translation_witness:
  "get_tfds_task ''mrpc'' = ''mrpc''
   \<and> fst (train example_env default_FLAGS PyNone (start {})) = Inr ()
   \<and> Tfds_load ''glue/sst2'' True
       \<in> set (calls (snd (train example_env default_FLAGS PyNone (start {}))))"
  using tfds_task_translation [of "''mrpc''" example_env default_FLAGS PyNone "{}"
      "fst (train example_env default_FLAGS PyNone (start {}))"
      "snd (train example_env default_FLAGS PyNone (start {}))"]
    example_fit_run
  by (simp add: default_FLAGS_def get_tfds_task_def)

text \<open>
  Claim C10. With the evaluate flag set, whatever the files that exist and whatever
  \<^verbatim>\<open>force_train\<close>, no run of \<^verbatim>\<open>train\<close> (returning or not) issues a \<^verbatim>\<open>fit\<close>, \<^verbatim>\<open>makedirs\<close> or
  \<^verbatim>\<open>save_pretrained\<close> call, and the filesystem is left as it was; a run that returns
  ends with the evaluation on the training dataset, the message for the validation
  dataset and the evaluation on the validation dataset, with no evaluation before.
\<close>

theorem evaluate_mode_saves_nothing:
  "evaluate FLAGS \<and> train env FLAGS a (start files) = (r, w') \<longrightarrow>
      (\<forall>c \<in> set (calls w'). \<not> is_fit c \<and> \<not> is_makedirs c \<and> \<not> is_save_pretrained c)
    \<and> fs w' = files
    \<and> (r = Inr () \<longrightarrow>
         (\<exists>before m d vd steps.
             calls w' = before @ [Evaluate m d 2 (Some steps),
                                  Print ''Evaluating on the validation dataset...'',
                                  Evaluate m vd 2 None]
           \<and> (\<forall>c \<in> set before. \<not> is_evaluate c)))"
proof (intro impI, elim conjE)
  assume ev: "evaluate FLAGS" and run: "train env FLAGS a (start files) = (r, w')"
  from onlyD [OF train_only run] obtain new where
    new: "calls w' = calls (start files) @ new" "list_all (call_ok env FLAGS) new"
      "list_all quiet new \<Longrightarrow> fs w' = fs (start files)"
    by blast
  from new(2) ev have kinds:
    "\<forall>c \<in> set new. quiet c \<and> \<not> is_fit c \<and> \<not> is_makedirs c \<and> \<not> is_save_pretrained c"
    by (auto simp: list_all_iff dest: call_ok_evaluate_kind)
  then have "list_all quiet new" by (simp add: list_all_iff)
  from new(3) [OF this] have files: "fs w' = files" by (simp add: start_def)
  from new(1) kinds have nofit:
    "\<forall>c \<in> set (calls w'). \<not> is_fit c \<and> \<not> is_makedirs c \<and> \<not> is_save_pretrained c"
    by (simp add: start_def)
  have ends: "\<exists>before m d vd steps.
             calls w' = before @ [Evaluate m d 2 (Some steps),
                                  Print ''Evaluating on the validation dataset...'',
                                  Evaluate m vd 2 None]
           \<and> (\<forall>c \<in> set before. \<not> is_evaluate c)" if "r = Inr ()"
  proof -
    from run that have "train env FLAGS a (start files) = (Inr (), w')" by simp
    then show ?thesis
    proof (cases rule: train_Inr)
      case (1 L steps)
      let ?before = "prepare_calls FLAGS L @ [Print ''Model summary:'', Summary (model L),
          Print ''None'', Print ''Evaluating on the training dataset...'']"
      from 1(4) have "calls w' = ?before @ [Evaluate (model L) (train_dataset L) 2 (Some steps),
          Print ''Evaluating on the validation dataset...'',
          Evaluate (model L) (valid_dataset L) 2 None]"
        by (simp add: start_def evaluate_calls_def)
      moreover from prepare_calls_kind [of FLAGS L] have "\<forall>c \<in> set ?before. \<not> is_evaluate c"
        by auto
      ultimately show ?thesis by blast
    next
      case (2 L)
      with ev show ?thesis by simp
    next
      case (3 L)
      with ev show ?thesis by simp
    qed
  qed
  from nofit files ends
  show "(\<forall>c \<in> set (calls w'). \<not> is_fit c \<and> \<not> is_makedirs c \<and> \<not> is_save_pretrained c)
    \<and> fs w' = files
    \<and> (r = Inr () \<longrightarrow>
         (\<exists>before m d vd steps.
             calls w' = before @ [Evaluate m d 2 (Some steps),
                                  Print ''Evaluating on the validation dataset...'',
                                  Evaluate m vd 2 None]
           \<and> (\<forall>c \<in> set before. \<not> is_evaluate c)))"
    by blast
qed

theorem evaluate_mode_saves_nothing_witness:
  "evaluate (default_FLAGS\<lparr>evaluate := True\<rparr>)
   \<and> fst (train example_env (default_FLAGS\<lparr>evaluate := True\<rparr>) PyNone
            (start {''./sst2/tf_model.h5''})) = Inr ()
   \<and> fs (snd (train example_env (default_FLAGS\<lparr>evaluate := True\<rparr>) PyNone
                (start {''./sst2/tf_model.h5''}))) = {''./sst2/tf_model.h5''}
   \<and> filter is_fit (calls (snd (train example_env (default_FLAGS\<lparr>evaluate := True\<rparr>) PyNone
                (start {''./sst2/tf_model.h5''})))) = []"
proof -
  let ?F = "default_FLAGS\<lparr>evaluate := True\<rparr>"
  let ?r = "fst (train example_env ?F PyNone (start {''./sst2/tf_model.h5''}))"
  let ?w = "snd (train example_env ?F PyNone (start {''./sst2/tf_model.h5''}))"
  have ev: "evaluate ?F" by simp
  have run: "train example_env ?F PyNone (start {''./sst2/tf_model.h5''}) = (?r, ?w)" by simp
  from evaluate_mode_saves_nothing [of ?F example_env PyNone "{''./sst2/tf_model.h5''}" ?r ?w]
    ev run
  have "(\<forall>c \<in> set (calls ?w). \<not> is_fit c) \<and> fs ?w = {''./sst2/tf_model.h5''}"
    by blast
  then have "filter is_fit (calls ?w) = [] \<and> fs ?w = {''./sst2/tf_model.h5''}"
    by (simp add: filter_empty_conv)
  with ev example_evaluate_run [of "{''./sst2/tf_model.h5''}"] show ?thesis by blast
qed

end
